theory Spec2Isabelle
  imports Complex_Main
begin

section \<open>Stored values, rows and tables\<close>

text \<open>
  The repository is a Django application: \<^verbatim>\<open>geo/models.py\<close> and \<^verbatim>\<open>geo/models/cric.py\<close>
  declare models, \<^verbatim>\<open>geo/admin.py\<close> registers two of them, and the management command
  \<^verbatim>\<open>seed_stadiums\<close> inserts ten venues through the object-relational mapper.
  The declarations are transcribed as data; the calls the command makes on the mapper
  (\<^verbatim>\<open>get\<close>, \<^verbatim>\<open>create\<close>, \<^verbatim>\<open>get_or_create\<close>, \<^verbatim>\<open>delete\<close>) are interpreted over that
  data, on a database that maps every model name to the list of its rows.

  A stored coordinate is the real number that a binary64 float denotes. The command
  computes its coordinates in binary64 arithmetic, which is modelled bit for bit.
\<close>

type_synonym coord = rat

datatype val =
    Null
  | Str string
  | Num int
  | Date nat nat nat
  | Ref nat
  | Pt coord coord
  | Poly "(coord \<times> coord) list"

record row =
  pk :: nat
  vals :: "(string \<times> val) list"

type_synonym db = "string \<Rightarrow> row list"

datatype error = DoesNotExist | MultipleObjectsReturned | IntegrityError | TypeError

definition get_field :: "row \<Rightarrow> string \<Rightarrow> val option" where
  "get_field r f = map_of (vals r) f"

text \<open>Reading an attribute of a loaded instance; an instance has every field of its model.\<close>

definition attr :: "row \<Rightarrow> string \<Rightarrow> val" where
  "attr r f = (case get_field r f of Some v \<Rightarrow> v | None \<Rightarrow> Null)"

section \<open>Model declarations\<close>

datatype on_delete = CASCADE | SET_NULL

datatype column =
    CharField | SlugField | TextField
  | IntegerField | PositiveIntegerField | PositiveSmallIntegerField | FloatField
  | DateTimeField | DateField | JSONField | FileField
  | PointField | PolygonField | MultiPolygonField
  | ForeignKey string on_delete
  | ManyToManyField string

record field =
  fname :: string
  column :: column
  f_null :: bool
  f_unique :: bool
  f_default :: "val option"

record model =
  mname :: string
  mfields :: "field list"
  unique_together :: "string list list"

definition fld :: "string \<Rightarrow> column \<Rightarrow> field" where
  "fld n c = \<lparr>fname = n, column = c, f_null = False, f_unique = False, f_default = None\<rparr>"

definition nullable :: "field \<Rightarrow> field" where
  "nullable f = f\<lparr>f_null := True\<rparr>"

definition uniq :: "field \<Rightarrow> field" where
  "uniq f = f\<lparr>f_unique := True\<rparr>"

definition with_default :: "val \<Rightarrow> field \<Rightarrow> field" where
  "with_default v f = f\<lparr>f_default := Some v\<rparr>"

subsection \<open>\<^verbatim>\<open>geo/models.py\<close>: the module that \<^verbatim>\<open>geo.models\<close> names\<close>

definition Stadium :: model where
  "Stadium = \<lparr>mname = ''Stadium'',
     mfields = [fld ''name'' CharField,
               nullable (fld ''city'' CharField),
               nullable (fld ''country'' CharField),
               nullable (fld ''location'' PointField)],
     unique_together = []\<rparr>"

definition Pitch :: model where
  "Pitch = \<lparr>mname = ''Pitch'',
     mfields = [fld ''stadium'' (ForeignKey ''Stadium'' CASCADE),
               with_default (Str ''Main'') (fld ''name'' CharField),
               nullable (fld ''area'' PolygonField),
               nullable (fld ''centroid'' PointField),
               with_default (Str ''grass'') (fld ''surface_type'' CharField),
               nullable (fld ''current_condition'' CharField)],
     unique_together = []\<rparr>"

definition models_py :: "model list" where
  "models_py = [Stadium, Pitch]"

section \<open>The object-relational mapper\<close>

definition find_model :: "model list \<Rightarrow> string \<Rightarrow> model option" where
  "find_model schema M = find (\<lambda>m. mname m = M) schema"

definition is_column :: "field \<Rightarrow> bool" where
  "is_column f = (case column f of ManyToManyField _ \<Rightarrow> False | _ \<Rightarrow> True)"

definition empty_strings_allowed :: "column \<Rightarrow> bool" where
  "empty_strings_allowed c =
     (case c of CharField \<Rightarrow> True | SlugField \<Rightarrow> True | TextField \<Rightarrow> True
      | FileField \<Rightarrow> True | _ \<Rightarrow> False)"

text \<open>\<^verbatim>\<open>Field.get_default\<close>: the declared default, else None for a nullable field or one
  that cannot hold the empty string, else the empty string.\<close>

definition get_default :: "field \<Rightarrow> val" where
  "get_default f =
     (case f_default f of
        Some v \<Rightarrow> v
      | None \<Rightarrow> if \<not> empty_strings_allowed (column f) \<or> f_null f then Null else Str [])"

text \<open>\<^verbatim>\<open>Model(**kwargs)\<close>: a keyword that names no field raises TypeError; a field with
  no keyword takes its default.\<close>

definition init_vals :: "model \<Rightarrow> (string \<times> val) list \<Rightarrow> error + (string \<times> val) list" where
  "init_vals m kwargs =
     (if list_ex (\<lambda>(k, v). k \<notin> set (map fname (mfields m))) kwargs then Inl TypeError
      else Inr (map (\<lambda>f. (fname f, case map_of kwargs (fname f) of
                                        Some v \<Rightarrow> v | None \<Rightarrow> get_default f))
                    (filter is_column (mfields m))))"

text \<open>The constraints the storage engine checks on INSERT: NOT NULL, single-column
  UNIQUE, \<^verbatim>\<open>unique_together\<close> and the existence of every referenced row. A NULL never
  collides with another value under a uniqueness constraint.\<close>

definition violates_not_null :: "model \<Rightarrow> row \<Rightarrow> bool" where
  "violates_not_null m r =
     list_ex (\<lambda>f. is_column f \<and> \<not> f_null f \<and> attr r (fname f) = Null) (mfields m)"

definition violates_unique :: "model \<Rightarrow> row list \<Rightarrow> row \<Rightarrow> bool" where
  "violates_unique m rows r =
     list_ex (\<lambda>f. f_unique f \<and> attr r (fname f) \<noteq> Null \<and>
                   list_ex (\<lambda>r'. attr r' (fname f) = attr r (fname f)) rows) (mfields m)"

definition violates_unique_together :: "model \<Rightarrow> row list \<Rightarrow> row \<Rightarrow> bool" where
  "violates_unique_together m rows r =
     list_ex (\<lambda>fs. list_all (\<lambda>f. attr r f \<noteq> Null) fs \<and>
                    list_ex (\<lambda>r'. list_all (\<lambda>f. attr r' f = attr r f) fs) rows)
             (unique_together m)"

definition violates_foreign_key :: "db \<Rightarrow> model \<Rightarrow> row \<Rightarrow> bool" where
  "violates_foreign_key d m r =
     list_ex (\<lambda>f. case column f of
                     ForeignKey T od \<Rightarrow>
                       (case attr r (fname f) of
                          Ref i \<Rightarrow> \<not> list_ex (\<lambda>r'. pk r' = i) (d T)
                        | _ \<Rightarrow> False)
                   | _ \<Rightarrow> False) (mfields m)"

text \<open>The automatic primary key: a key above every key of the table.\<close>

definition next_pk :: "row list \<Rightarrow> nat" where
  "next_pk rows = Suc (fold max (map pk rows) 0)"

definition insert_row :: "db \<Rightarrow> model \<Rightarrow> (string \<times> val) list \<Rightarrow> error + (row \<times> db)" where
  "insert_row d m vs =
     (let r = \<lparr>pk = next_pk (d (mname m)), vals = vs\<rparr>
      in if violates_not_null m r \<or> violates_unique m (d (mname m)) r
            \<or> violates_unique_together m (d (mname m)) r \<or> violates_foreign_key d m r
         then Inl IntegrityError
         else Inr (r, d(mname m := d (mname m) @ [r])))"

text \<open>\<^verbatim>\<open>Model.objects.create(**kwargs)\<close>.\<close>

definition create :: "db \<Rightarrow> model \<Rightarrow> (string \<times> val) list \<Rightarrow> error + (row \<times> db)" where
  "create d m kwargs =
     (case init_vals m kwargs of
        Inl e \<Rightarrow> Inl e
      | Inr vs \<Rightarrow> insert_row d m vs)"

text \<open>\<^verbatim>\<open>Model.objects.get(f=v)\<close>: the single row whose field equals the value; no row
  raises DoesNotExist, several rows raise MultipleObjectsReturned.\<close>

definition get :: "db \<Rightarrow> model \<Rightarrow> string \<Rightarrow> val \<Rightarrow> error + row" where
  "get d m f v =
     (case filter (\<lambda>r. get_field r f = Some v) (d (mname m)) of
        [] \<Rightarrow> Inl DoesNotExist
      | [r] \<Rightarrow> Inr r
      | _ \<Rightarrow> Inl MultipleObjectsReturned)"

text \<open>\<^verbatim>\<open>Model.objects.get_or_create(f=v, defaults=...)\<close>: the lookup first; on
  DoesNotExist the row is created from the lookup and the defaults; an IntegrityError
  of that insert is answered by a second lookup and raised again when that finds
  nothing. Every other error propagates.\<close>

definition get_or_create ::
  "db \<Rightarrow> model \<Rightarrow> string \<Rightarrow> val \<Rightarrow> (string \<times> val) list \<Rightarrow> error + ((row \<times> bool) \<times> db)" where
  "get_or_create d m f v defaults =
     (case get d m f v of
        Inr r \<Rightarrow> Inr ((r, False), d)
      | Inl DoesNotExist \<Rightarrow>
          (case create d m ((f, v) # defaults) of
             Inr (r, d') \<Rightarrow> Inr ((r, True), d')
           | Inl IntegrityError \<Rightarrow>
               (case get d m f v of
                  Inr r \<Rightarrow> Inr ((r, False), d)
                | Inl DoesNotExist \<Rightarrow> Inl IntegrityError
                | Inl e \<Rightarrow> Inl e)
           | Inl e \<Rightarrow> Inl e)
      | Inl e \<Rightarrow> Inl e)"

section \<open>Binary64 arithmetic\<close>

text \<open>
  A Python float is an IEEE 754 binary64 number. A finite one is an integer \<open>m\<close> times a
  power \<open>2 ^ e\<close>, written here as the pair \<open>(m, e)\<close>; \<open>value\<close> is the real number it
  denotes. A literal, a sum and a difference are the exact result rounded to the nearest
  number with a 53-bit significand, ties to the even significand, with gradual underflow
  at the exponent \<open>-1074\<close>. The floats of this program are the literals of the venue
  table and those literals plus or minus \<open>0.0003\<close>, far inside the finite range, so
  overflow to infinity is not modelled.
\<close>

type_synonym double = "int \<times> int"

definition "value" :: "double \<Rightarrow> rat" where
  "value a = (if 0 \<le> snd a then of_int (fst a * 2 ^ nat (snd a))
              else of_int (fst a) / of_int (2 ^ nat (- snd a)))"

text \<open>The number of binary digits of a natural number.\<close>

fun bitlen :: "nat \<Rightarrow> nat" where
  "bitlen n = (if n = 0 then 0 else Suc (bitlen (n div 2)))"

declare bitlen.simps [simp del]

text \<open>\<open>n / d\<close> rounded to the nearest integer, ties to even, from the quotient and the
  remainder of the division (\<open>0 < d\<close>).\<close>

definition round_qr :: "int \<Rightarrow> int \<Rightarrow> int \<Rightarrow> int" where
  "round_qr q r d =
     (if 2 * r < d then q else if d < 2 * r then q + 1 else if even q then q else q + 1)"

definition round_half_even :: "int \<Rightarrow> int \<Rightarrow> int" where
  "round_half_even n d = round_qr (n div d) (n mod d) d"

text \<open>\<open>n / d * 2 ^ s\<close> rounded to the nearest integer.\<close>

definition scaled_round :: "int \<Rightarrow> int \<Rightarrow> int \<Rightarrow> int" where
  "scaled_round n d s =
     (if 0 \<le> s then round_half_even (n * 2 ^ nat s) d else round_half_even n (d * 2 ^ nat (- s)))"

text \<open>\<open>2 ^ k \<le> n / d\<close>.\<close>

definition ge_pow2 :: "int \<Rightarrow> int \<Rightarrow> int \<Rightarrow> bool" where
  "ge_pow2 n d k = (if 0 \<le> k then d * 2 ^ nat k \<le> n else d \<le> n * 2 ^ nat (- k))"

text \<open>The exponent \<open>e\<close> that puts \<open>n / d / 2 ^ e\<close> between \<open>2 ^ 52\<close> and \<open>2 ^ 53\<close>: with
  \<open>k\<close> the difference of the bit lengths of \<open>n\<close> and \<open>d\<close>, the quotient lies between
  \<open>2 ^ (k - 1)\<close> and \<open>2 ^ (k + 1)\<close>.\<close>

definition exponent_from :: "int \<Rightarrow> int \<Rightarrow> int \<Rightarrow> int" where
  "exponent_from n d k = max (if ge_pow2 n d k then k - 52 else k - 53) (- 1074)"

definition exponent :: "int \<Rightarrow> int \<Rightarrow> int" where
  "exponent n d = exponent_from \<bar>n\<bar> d (int (bitlen (nat \<bar>n\<bar>)) - int (bitlen (nat d)))"

definition with_exponent :: "int \<Rightarrow> int \<Rightarrow> int \<Rightarrow> double" where
  "with_exponent n d e = (scaled_round n d (- e), e)"

text \<open>The binary64 number nearest to \<open>n / d\<close> (\<open>0 < d\<close>).\<close>

definition to_double :: "int \<Rightarrow> int \<Rightarrow> double" where
  "to_double n d = (if n = 0 then (0, 0) else with_exponent n d (exponent n d))"

text \<open>A decimal literal: \<open>dbl 515281 4\<close> is the float that Python reads from \<^verbatim>\<open>51.5281\<close>.\<close>

definition dbl :: "int \<Rightarrow> nat \<Rightarrow> double" where
  "dbl digits k = to_double digits (10 ^ k)"

definition fneg :: "double \<Rightarrow> double" where
  "fneg a = (- fst a, snd a)"

definition round_dyadic :: "int \<Rightarrow> int \<Rightarrow> double" where
  "round_dyadic n e = (if 0 \<le> e then to_double (n * 2 ^ nat e) 1 else to_double n (2 ^ nat (- e)))"

text \<open>The significand of a float at a smaller exponent.\<close>

definition aligned :: "double \<Rightarrow> int \<Rightarrow> int" where
  "aligned a e = fst a * 2 ^ nat (snd a - e)"

definition fadd_at :: "double \<Rightarrow> double \<Rightarrow> int \<Rightarrow> double" where
  "fadd_at a b e = round_dyadic (aligned a e + aligned b e) e"

text \<open>\<^verbatim>\<open>a + b\<close> on floats.\<close>

definition fadd :: "double \<Rightarrow> double \<Rightarrow> double" where
  "fadd a b = fadd_at a b (min (snd a) (snd b))"

definition fsub_at :: "double \<Rightarrow> double \<Rightarrow> int \<Rightarrow> double" where
  "fsub_at a b e = round_dyadic (aligned a e - aligned b e) e"

text \<open>\<^verbatim>\<open>a - b\<close> on floats.\<close>

definition fsub :: "double \<Rightarrow> double \<Rightarrow> double" where
  "fsub a b = fsub_at a b (min (snd a) (snd b))"

text \<open>\<^verbatim>\<open>Point(x, y)\<close> of the geometry library, from two floats.\<close>

definition Point :: "double \<Rightarrow> double \<Rightarrow> val" where
  "Point x y = Pt (value x) (value y)"

section \<open>The seed command\<close>

record venue =
  name :: string
  country :: string
  coords :: "double \<times> double"

definition stadiums_data :: "venue list" where
  "stadiums_data =
    [\<lparr>name = ''Lord's Cricket Ground'', country = ''England'', coords = (dbl 515281 4, fneg (dbl 1720 4))\<rparr>,
     \<lparr>name = ''Melbourne Cricket Ground'', country = ''Australia'', coords = (fneg (dbl 378199 4), dbl 1449834 4)\<rparr>,
     \<lparr>name = ''Eden Park'', country = ''New Zealand'', coords = (fneg (dbl 368485 4), dbl 1747670 4)\<rparr>,
     \<lparr>name = ''The Oval'', country = ''England'', coords = (dbl 514826 4, fneg (dbl 1122 4))\<rparr>,
     \<lparr>name = ''SCG - Sydney Cricket Ground'', country = ''Australia'', coords = (fneg (dbl 338912 4), dbl 1512241 4)\<rparr>,
     \<lparr>name = ''Wellington Regional Stadium'', country = ''New Zealand'', coords = (fneg (dbl 413048 4), dbl 1747815 4)\<rparr>,
     \<lparr>name = ''Old Trafford Cricket Ground'', country = ''England'', coords = (dbl 534560 4, fneg (dbl 22910 4))\<rparr>,
     \<lparr>name = ''Kensington Oval'', country = ''Barbados'', coords = (dbl 130936 4, fneg (dbl 596100 4))\<rparr>,
     \<lparr>name = ''Queen's Park Oval'', country = ''Trinidad & Tobago'', coords = (dbl 106541 4, fneg (dbl 615168 4))\<rparr>,
     \<lparr>name = ''Newlands'', country = ''South Africa'', coords = (fneg (dbl 339460 4), dbl 184647 4)\<rparr>]"

datatype line = SUCCESS string | PLAIN string

text \<open>\<^verbatim>\<open>str\<close> of a CharField attribute, which holds a string or None.\<close>

fun str :: "val \<Rightarrow> string" where
  "str (Str s) = s"
| "str _ = ''None''"

definition delta :: double where
  "delta = dbl 3 4"

definition polygon :: "double \<Rightarrow> double \<Rightarrow> val" where
  "polygon lat lon =
     Poly [(value (fsub lon delta), value (fsub lat delta)),
           (value (fsub lon delta), value (fadd lat delta)),
           (value (fadd lon delta), value (fadd lat delta)),
           (value (fadd lon delta), value (fsub lat delta)),
           (value (fsub lon delta), value (fsub lat delta))]"

text \<open>One pass of the loop body of \<^verbatim>\<open>Command.handle\<close> for the venue \<open>data\<close>, on the
  database and the lines written so far. The command runs outside a transaction: an
  exception ends the run and leaves the database and the output as they are at the raise,
  which is what \<open>Inl\<close> carries beside the error.\<close>

type_synonym state = "db \<times> line list"

definition seed_venue :: "venue \<Rightarrow> state \<Rightarrow> (error \<times> state) + state" where
  "seed_venue data st =
     (let (d, out) = st in
      case get_or_create d Stadium ''name'' (Str (name data))
             [(''country'', Str (country data)),
              (''location'', Point (snd (coords data)) (fst (coords data)))] of
        Inl e \<Rightarrow> Inl (e, (d, out))
      | Inr ((stadium, created), d1) \<Rightarrow>
          if created then
            (let (lat, lon) = coords data in
             case create d1 Pitch
                    [(''stadium'', Ref (pk stadium)),
                     (''name'', Str ''Main Pitch''),
                     (''area'', polygon lat lon),
                     (''centroid'', attr stadium ''location''),
                     (''surface_type'', Str ''grass''),
                     (''current_condition'', Str ''balanced'')] of
               Inl e \<Rightarrow> Inl (e, (d1, out))
             | Inr (p, d2) \<Rightarrow>
                 Inr (d2, out @ [SUCCESS (''Created stadium and pitch: '' @ str (attr stadium ''name''))]))
          else Inr (d1, out @ [PLAIN (''Stadium already exists: '' @ str (attr stadium ''name''))]))"

fun seed_loop :: "venue list \<Rightarrow> state \<Rightarrow> (error \<times> state) + state" where
  "seed_loop [] st = Inr st"
| "seed_loop (data # rest) st =
     (case seed_venue data st of Inl e \<Rightarrow> Inl e | Inr st' \<Rightarrow> seed_loop rest st')"

definition handle :: "db \<Rightarrow> (error \<times> state) + state" where
  "handle d = seed_loop stadiums_data (d, [])"

section \<open>What one pass of the loop leaves behind\<close>

text \<open>The Stadium rows that carry a name, and the rows and the database that the
  creating branch of the loop body produces.\<close>

definition stadiums_named :: "db \<Rightarrow> string \<Rightarrow> row list" where
  "stadiums_named d n = filter (\<lambda>r. get_field r ''name'' = Some (Str n)) (d ''Stadium'')"

definition stadium_row :: "nat \<Rightarrow> venue \<Rightarrow> row" where
  "stadium_row i data =
     \<lparr>pk = i,
      vals = [(''name'', Str (name data)), (''city'', Null),
              (''country'', Str (country data)),
              (''location'', Point (snd (coords data)) (fst (coords data)))]\<rparr>"

definition pitch_row :: "nat \<Rightarrow> nat \<Rightarrow> venue \<Rightarrow> row" where
  "pitch_row i s data =
     \<lparr>pk = i,
      vals = [(''stadium'', Ref s), (''name'', Str ''Main Pitch''),
              (''area'', polygon (fst (coords data)) (snd (coords data))),
              (''centroid'', Point (snd (coords data)) (fst (coords data))),
              (''surface_type'', Str ''grass''),
              (''current_condition'', Str ''balanced'')]\<rparr>"

definition created :: "db \<Rightarrow> venue \<Rightarrow> db" where
  "created d data =
     d(''Stadium'' := d ''Stadium'' @ [stadium_row (next_pk (d ''Stadium'')) data],
       ''Pitch'' := d ''Pitch'' @ [pitch_row (next_pk (d ''Pitch'')) (next_pk (d ''Stadium'')) data])"

definition message :: "db \<Rightarrow> venue \<Rightarrow> line" where
  "message d data =
     (if stadiums_named d (name data) = []
      then SUCCESS (''Created stadium and pitch: '' @ name data)
      else PLAIN (''Stadium already exists: '' @ name data))"

fun seeded :: "venue list \<Rightarrow> db \<Rightarrow> db" where
  "seeded [] d = d"
| "seeded (data # rest) d =
     seeded rest (if stadiums_named d (name data) = [] then created d data else d)"

definition at_most_one :: "venue list \<Rightarrow> db \<Rightarrow> bool" where
  "at_most_one vs d = list_all (\<lambda>v. length (stadiums_named d (name v)) \<le> 1) vs"

definition missing :: "venue list \<Rightarrow> db \<Rightarrow> venue list" where
  "missing vs d = filter (\<lambda>v. stadiums_named d (name v) = []) vs"

definition empty_db :: db where
  "empty_db = (\<lambda>M. [])"

definition two_eden :: db where
  "two_eden = empty_db(''Stadium'' :=
     [\<lparr>pk = 1, vals = [(''name'', Str ''Eden Park''), (''city'', Str ''Auckland''),
                       (''country'', Null), (''location'', Null)]\<rparr>,
      \<lparr>pk = 2, vals = [(''name'', Str ''Eden Park''), (''city'', Str ''Kolkata''),
                       (''country'', Null), (''location'', Null)]\<rparr>])"

definition one_oval :: db where
  "one_oval = empty_db(''Stadium'' :=
     [\<lparr>pk = 7, vals = [(''name'', Str ''The Oval''), (''city'', Str ''London''),
                       (''country'', Null), (''location'', Null)]\<rparr>])"

text \<open>The keyword arguments of the lookup-or-insert that the loop body makes for a venue.\<close>

definition defaults :: "venue \<Rightarrow> (string \<times> val) list" where
  "defaults data =
     [(''country'', Str (country data)),
      (''location'', Point (snd (coords data)) (fst (coords data)))]"

definition lords_row :: "nat \<Rightarrow> row" where
  "lords_row i =
     \<lparr>pk = i, vals = [(''name'', Str ''Lord's Cricket Ground''), (''city'', Null),
                       (''country'', Null), (''location'', Null)]\<rparr>"

definition one_lords :: db where
  "one_lords = empty_db(''Stadium'' := [lords_row 1])"

definition two_lords :: db where
  "two_lords = empty_db(''Stadium'' := [lords_row 1, lords_row 2])"

text \<open>Plane geometry of a ring of coordinates: the shoelace sums give twice the signed
  area and the centroid of the enclosed polygon.\<close>

type_synonym point = "coord \<times> coord"

definition closed :: "point list \<Rightarrow> bool" where
  "closed ring = (ring \<noteq> [] \<and> hd ring = last ring)"

definition corners :: "point list \<Rightarrow> point list" where
  "corners ring = butlast ring"

definition cross :: "point \<Rightarrow> point \<Rightarrow> coord" where
  "cross p q = fst p * snd q - fst q * snd p"

definition edges :: "point list \<Rightarrow> (point \<times> point) list" where
  "edges ring = zip ring (tl ring)"

definition area2 :: "point list \<Rightarrow> coord" where
  "area2 ring = (\<Sum>(p, q) \<leftarrow> edges ring. cross p q)"

definition centroid :: "point list \<Rightarrow> point" where
  "centroid ring =
     ((\<Sum>(p, q) \<leftarrow> edges ring. (fst p + fst q) * cross p q) / (3 * area2 ring),
      (\<Sum>(p, q) \<leftarrow> edges ring. (snd p + snd q) * cross p q) / (3 * area2 ring))"

definition sq_dist :: "point \<Rightarrow> point \<Rightarrow> coord" where
  "sq_dist p q = (fst p - fst q)\<^sup>2 + (snd p - snd q)\<^sup>2"

fun rectangle :: "point list \<Rightarrow> bool" where
  "rectangle [a, b, c, d] =
     (distinct [a, b, c, d] \<and>
      fst a + fst c = fst b + fst d \<and> snd a + snd c = snd b + snd d \<and>
      sq_dist a c = sq_dist b d)"
| "rectangle _ = False"

definition axis_parallel :: "point \<Rightarrow> point \<Rightarrow> bool" where
  "axis_parallel p q = (fst p = fst q \<or> snd p = snd q)"

text \<open>Four corners, in the order given, of the square with sides parallel to the axes
  that has the given side and centre.\<close>

fun axis_aligned_square :: "coord \<Rightarrow> point \<Rightarrow> point list \<Rightarrow> bool" where
  "axis_aligned_square side (cx, cy) [a, b, c, d] =
     (distinct [a, b, c, d] \<and>
      set [a, b, c, d] = {(cx - side / 2, cy - side / 2), (cx - side / 2, cy + side / 2),
                          (cx + side / 2, cy + side / 2), (cx + side / 2, cy - side / 2)} \<and>
      axis_parallel a b \<and> axis_parallel b c \<and> axis_parallel c d \<and> axis_parallel d a)"
| "axis_aligned_square side centre ps = False"

subsection \<open>\<^verbatim>\<open>geo/models/abstracts.py\<close> and \<^verbatim>\<open>geo/models/cric.py\<close>\<close>

text \<open>An abstract base class contributes its fields to each model that inherits it. The
  options transcribed are the ones that bear on what is stored and what may be stored:
  the column type, \<^verbatim>\<open>null\<close>, \<^verbatim>\<open>unique\<close>, a literal \<^verbatim>\<open>default\<close>, the target and
  \<^verbatim>\<open>on_delete\<close> of a foreign key, and \<^verbatim>\<open>unique_together\<close>. The timestamps that the
  framework fills in itself (\<^verbatim>\<open>auto_now\<close>, \<^verbatim>\<open>auto_now_add\<close>, \<^verbatim>\<open>default=timezone.now\<close>)
  have no literal default.\<close>

definition TimeStampedModel :: "field list" where
  "TimeStampedModel = [fld ''created_at'' DateTimeField, fld ''updated_at'' DateTimeField]"

definition GeoModel :: "field list" where
  "GeoModel = [nullable (fld ''location'' PointField),
               nullable (fld ''boundary'' MultiPolygonField)]"

definition PayloadModel :: "field list" where
  "PayloadModel = [nullable (fld ''raw_payload'' JSONField), nullable (fld ''meta'' JSONField)]"

definition SourceTrackedModel :: "field list" where
  "SourceTrackedModel = [nullable (fld ''source'' CharField)]"

definition cric_Stadium :: model where
  "cric_Stadium = \<lparr>mname = ''Stadium'',
     mfields = GeoModel @ TimeStampedModel @
       [fld ''name'' CharField,
        uniq (fld ''slug'' SlugField),
        nullable (fld ''city'' CharField),
        nullable (fld ''country'' CharField),
        nullable (fld ''capacity'' PositiveIntegerField)],
     unique_together = []\<rparr>"

definition StadiumFeature :: model where
  "StadiumFeature = \<lparr>mname = ''StadiumFeature'',
     mfields =
       [fld ''stadium'' (ForeignKey ''Stadium'' CASCADE),
        fld ''key'' CharField,
        fld ''value'' CharField],
     unique_together = [[''stadium'', ''key'']]\<rparr>"

definition cric_Pitch :: model where
  "cric_Pitch = \<lparr>mname = ''Pitch'',
     mfields = TimeStampedModel @
       [fld ''stadium'' (ForeignKey ''Stadium'' CASCADE),
        with_default (Str ''Main'') (fld ''name'' CharField),
        nullable (fld ''area'' PolygonField),
        nullable (fld ''centroid'' PointField),
        nullable (fld ''length_m'' FloatField),
        nullable (fld ''width_m'' FloatField),
        with_default (Str ''grass'') (fld ''surface_type'' CharField),
        nullable (fld ''preferred_usage'' CharField)],
     unique_together = []\<rparr>"

definition PitchSnapshot :: model where
  "PitchSnapshot = \<lparr>mname = ''PitchSnapshot'',
     mfields = TimeStampedModel @ PayloadModel @ SourceTrackedModel @
       [fld ''pitch'' (ForeignKey ''Pitch'' CASCADE),
        fld ''timestamp'' DateTimeField,
        nullable (fld ''soil_moisture'' FloatField),
        nullable (fld ''humidity'' FloatField),
        nullable (fld ''temperature_c'' FloatField),
        nullable (fld ''grass_cover_pct'' FloatField),
        nullable (fld ''ndvi'' FloatField),
        nullable (fld ''hardness'' FloatField),
        nullable (fld ''predicted_condition'' CharField),
        nullable (fld ''predicted_confidence'' FloatField),
        nullable (fld ''measure_point'' PointField)],
     unique_together = []\<rparr>"

definition SoilSample :: model where
  "SoilSample = \<lparr>mname = ''SoilSample'',
     mfields = PayloadModel @
       [fld ''pitch'' (ForeignKey ''Pitch'' CASCADE),
        fld ''taken_at'' DateTimeField,
        fld ''sample_point'' PointField,
        nullable (fld ''ph'' FloatField),
        nullable (fld ''organic_matter_pct'' FloatField),
        nullable (fld ''nitrogen_mgkg'' FloatField),
        nullable (fld ''phosphorus_mgkg'' FloatField),
        nullable (fld ''potassium_mgkg'' FloatField),
        nullable (fld ''lab_report'' FileField)],
     unique_together = []\<rparr>"

definition SensorDevice :: model where
  "SensorDevice = \<lparr>mname = ''SensorDevice'',
     mfields = PayloadModel @
       [uniq (fld ''uid'' CharField),
        nullable (fld ''label'' CharField),
        fld ''device_type'' CharField,
        nullable (fld ''installed_at'' DateTimeField),
        nullable (fld ''last_heartbeat'' DateTimeField),
        nullable (fld ''pitch'' (ForeignKey ''Pitch'' SET_NULL))],
     unique_together = []\<rparr>"

definition SensorReading :: model where
  "SensorReading = \<lparr>mname = ''SensorReading'',
     mfields = PayloadModel @
       [fld ''device'' (ForeignKey ''SensorDevice'' CASCADE),
        fld ''timestamp'' DateTimeField,
        fld ''value'' FloatField,
        nullable (fld ''unit'' CharField),
        nullable (fld ''location'' PointField)],
     unique_together = []\<rparr>"

definition BaseImage :: "field list" where
  "BaseImage = PayloadModel @ TimeStampedModel @
       [nullable (fld ''pitch'' (ForeignKey ''Pitch'' CASCADE)),
        fld ''acquired_at'' DateTimeField,
        fld ''footprint'' PolygonField,
        fld ''provider'' CharField,
        nullable (fld ''file_url'' CharField)]"

definition SatelliteImage :: model where
  "SatelliteImage = \<lparr>mname = ''SatelliteImage'',
     mfields = BaseImage @
       [nullable (fld ''product_id'' CharField),
        nullable (fld ''derived_indices'' JSONField)],
     unique_together = []\<rparr>"

definition CameraImage :: model where
  "CameraImage = \<lparr>mname = ''CameraImage'',
     mfields = BaseImage @
       [fld ''image_file'' FileField,
        nullable (fld ''view_point'' PointField)],
     unique_together = []\<rparr>"

definition Team :: model where
  "Team = \<lparr>mname = ''Team'',
     mfields =
       [fld ''name'' CharField,
        nullable (fld ''code'' CharField),
        nullable (fld ''country'' CharField)],
     unique_together = []\<rparr>"

definition Player :: model where
  "Player = \<lparr>mname = ''Player'',
     mfields = PayloadModel @
       [nullable (fld ''team'' (ForeignKey ''Team'' SET_NULL)),
        fld ''first_name'' CharField,
        nullable (fld ''last_name'' CharField),
        nullable (fld ''jersey_no'' PositiveIntegerField),
        nullable (fld ''role'' CharField)],
     unique_together = []\<rparr>"

definition Match :: model where
  "Match = \<lparr>mname = ''Match'',
     mfields = TimeStampedModel @ PayloadModel @
       [nullable (fld ''pitch'' (ForeignKey ''Pitch'' SET_NULL)),
        nullable (fld ''stadium'' (ForeignKey ''Stadium'' SET_NULL)),
        fld ''name'' CharField,
        fld ''start_date'' DateTimeField,
        nullable (fld ''end_date'' DateTimeField),
        fld ''teams'' (ManyToManyField ''Team'')],
     unique_together = []\<rparr>"

definition Inning :: model where
  "Inning = \<lparr>mname = ''Inning'',
     mfields =
       [fld ''match'' (ForeignKey ''Match'' CASCADE),
        fld ''number'' PositiveSmallIntegerField,
        nullable (fld ''batting_team'' (ForeignKey ''Team'' SET_NULL)),
        nullable (fld ''bowling_team'' (ForeignKey ''Team'' SET_NULL)),
        with_default (Num 0) (fld ''overs'' PositiveSmallIntegerField)],
     unique_together = [[''match'', ''number'']]\<rparr>"

definition Over :: model where
  "Over = \<lparr>mname = ''Over'',
     mfields =
       [fld ''inning'' (ForeignKey ''Inning'' CASCADE),
        fld ''number'' PositiveSmallIntegerField,
        nullable (fld ''bowler'' (ForeignKey ''Player'' SET_NULL)),
        nullable (fld ''start_time'' DateTimeField)],
     unique_together = [[''inning'', ''number'']]\<rparr>"

definition Delivery :: model where
  "Delivery = \<lparr>mname = ''Delivery'',
     mfields = PayloadModel @
       [fld ''over'' (ForeignKey ''Over'' CASCADE),
        fld ''ball_in_over'' PositiveSmallIntegerField,
        nullable (fld ''batsman'' (ForeignKey ''Player'' SET_NULL)),
        nullable (fld ''bowler'' (ForeignKey ''Player'' SET_NULL)),
        fld ''timestamp'' DateTimeField,
        nullable (fld ''pitch_point'' PointField),
        nullable (fld ''impact_point'' PointField),
        nullable (fld ''landing_distance'' FloatField),
        nullable (fld ''speed_kmph'' FloatField),
        nullable (fld ''spin_rpm'' FloatField),
        nullable (fld ''outcome'' CharField)],
     unique_together = []\<rparr>"

definition PlayerTrackPoint :: model where
  "PlayerTrackPoint = \<lparr>mname = ''PlayerTrackPoint'',
     mfields = PayloadModel @
       [fld ''match'' (ForeignKey ''Match'' CASCADE),
        fld ''player'' (ForeignKey ''Player'' CASCADE),
        fld ''timestamp'' DateTimeField,
        fld ''location'' PointField,
        nullable (fld ''speed'' FloatField),
        nullable (fld ''heading'' FloatField)],
     unique_together = []\<rparr>"

definition PitchMetric :: model where
  "PitchMetric = \<lparr>mname = ''PitchMetric'',
     mfields = TimeStampedModel @
       [fld ''pitch'' (ForeignKey ''Pitch'' CASCADE),
        fld ''date'' DateField,
        nullable (fld ''avg_soil_moisture'' FloatField),
        nullable (fld ''avg_ndvi'' FloatField),
        nullable (fld ''avg_grass_cover'' FloatField),
        nullable (fld ''notes'' TextField)],
     unique_together = [[''pitch'', ''date'']]\<rparr>"

definition PitchAnalysis :: model where
  "PitchAnalysis = \<lparr>mname = ''PitchAnalysis'',
     mfields = TimeStampedModel @
       [fld ''snapshot'' (ForeignKey ''PitchSnapshot'' CASCADE),
        fld ''model_name'' CharField,
        nullable (fld ''model_version'' CharField),
        fld ''prediction'' CharField,
        nullable (fld ''confidence'' FloatField),
        nullable (fld ''details'' JSONField)],
     unique_together = []\<rparr>"

definition IngestionEvent :: model where
  "IngestionEvent = \<lparr>mname = ''IngestionEvent'',
     mfields = TimeStampedModel @ PayloadModel @
       [fld ''source'' CharField,
        nullable (fld ''finished_at'' DateTimeField),
        with_default (Str ''pending'') (fld ''status'' CharField),
        with_default (Num 0) (fld ''items_processed'' IntegerField)],
     unique_together = []\<rparr>"

definition cric_py :: "model list" where
  "cric_py = [cric_Stadium, StadiumFeature, cric_Pitch, PitchSnapshot, SoilSample,
              SensorDevice, SensorReading, SatelliteImage, CameraImage, Team, Player,
              Match, Inning, Over, Delivery, PlayerTrackPoint, PitchMetric, PitchAnalysis,
              IngestionEvent]"

text \<open>The ring through the corners of the box between two meridians and two parallels, in
  the order in which the command lists them.\<close>

definition box :: "coord \<Rightarrow> coord \<Rightarrow> coord \<Rightarrow> coord \<Rightarrow> point list" where
  "box x1 x2 y1 y2 = [(x1, y1), (x1, y2), (x2, y2), (x2, y1), (x1, y1)]"

text \<open>The four bounds that the command computes for a venue.\<close>

definition west :: "venue \<Rightarrow> coord" where
  "west data = value (fsub (snd (coords data)) delta)"

definition east :: "venue \<Rightarrow> coord" where
  "east data = value (fadd (snd (coords data)) delta)"

definition south :: "venue \<Rightarrow> coord" where
  "south data = value (fsub (fst (coords data)) delta)"

definition north :: "venue \<Rightarrow> coord" where
  "north data = value (fadd (fst (coords data)) delta)"

definition centred :: "venue \<Rightarrow> bool" where
  "centred data =
     (west data < east data \<and> south data < north data \<and>
      west data + east data = 2 * value (snd (coords data)) \<and>
      south data + north data = 2 * value (fst (coords data)))"

definition near_0006 :: "venue \<Rightarrow> bool" where
  "near_0006 data =
     (\<bar>east data - west data - 6 / 10 ^ 4\<bar> < 1 / 10 ^ 13 \<and>
      \<bar>north data - south data - 6 / 10 ^ 4\<bar> < 1 / 10 ^ 13)"

text \<open>Four corners, in the order given, of the rectangle with sides parallel to the axes
  that has the given width, height and centre.\<close>

fun axis_aligned_rectangle :: "coord \<Rightarrow> coord \<Rightarrow> point \<Rightarrow> point list \<Rightarrow> bool" where
  "axis_aligned_rectangle w h (cx, cy) [a, b, c, d] =
     (0 < w \<and> 0 < h \<and> distinct [a, b, c, d] \<and>
      set [a, b, c, d] = {(cx - w / 2, cy - h / 2), (cx - w / 2, cy + h / 2),
                          (cx + w / 2, cy + h / 2), (cx + w / 2, cy - h / 2)} \<and>
      axis_parallel a b \<and> axis_parallel b c \<and> axis_parallel c d \<and> axis_parallel d a)"
| "axis_aligned_rectangle w h centre ps = False"

subsection \<open>Which file \<^verbatim>\<open>geo.models\<close> names\<close>

text \<open>The files of the package \<^verbatim>\<open>geo\<close>, and the rule by which Python finds a
  submodule in a directory: a subdirectory with an \<^verbatim>\<open>__init__.py\<close> is a regular
  package and wins; otherwise a module file of that name; a subdirectory without
  \<^verbatim>\<open>__init__.py\<close> is a namespace package, taken only when there is no module file.\<close>

datatype node = File | Dir "(string \<times> node) list"

datatype module_spec =
  RegularPackage string | SourceFile string | NamespacePackage string | ModuleNotFound

definition geo :: "(string \<times> node) list" where
  "geo = [(''admin.py'', File),
          (''models.py'', File),
          (''models'', Dir [(''abstracts.py'', File), (''cric.py'', File)]),
          (''management'', Dir [(''commands'', Dir [(''seed_stadiums.py'', File)])])]"

definition has_file :: "(string \<times> node) list \<Rightarrow> string \<Rightarrow> bool" where
  "has_file entries n = (case map_of entries n of Some File \<Rightarrow> True | _ \<Rightarrow> False)"

definition find_spec :: "(string \<times> node) list \<Rightarrow> string \<Rightarrow> module_spec" where
  "find_spec entries n =
     (case map_of entries n of
        Some (Dir sub) \<Rightarrow>
          if has_file sub ''__init__.py'' then RegularPackage n
          else if has_file entries (n @ ''.py'') then SourceFile (n @ ''.py'')
          else NamespacePackage n
      | _ \<Rightarrow> if has_file entries (n @ ''.py'') then SourceFile (n @ ''.py'') else ModuleNotFound)"

text \<open>The database that a run leaves behind, whether it returned or raised.\<close>

definition final_db :: "(error \<times> state) + state \<Rightarrow> db" where
  "final_db res = (case res of Inl (e, (d, out)) \<Rightarrow> d | Inr (d, out) \<Rightarrow> d)"

text \<open>The keyword arguments with which the loop body creates a Pitch.\<close>

definition pitch_kwargs :: "row \<Rightarrow> val \<Rightarrow> (string \<times> val) list" where
  "pitch_kwargs stadium area =
     [(''stadium'', Ref (pk stadium)), (''name'', Str ''Main Pitch''), (''area'', area),
      (''centroid'', attr stadium ''location''), (''surface_type'', Str ''grass''),
      (''current_condition'', Str ''balanced'')]"

text \<open>An INSERT statement: the error it raises, if any, and the database after it. A
  rejected INSERT leaves the database as it was.\<close>

definition insert_into :: "db \<Rightarrow> model \<Rightarrow> (string \<times> val) list \<Rightarrow> error option \<times> db" where
  "insert_into d m vs =
     (case insert_row d m vs of Inl e \<Rightarrow> (Some e, d) | Inr (r, d') \<Rightarrow> (None, d'))"

text \<open>A small database of \<^verbatim>\<open>cric.py\<close>: one Stadium with a feature, a pitch and a metric
  of that pitch, and a match with an inning and an over.\<close>

definition cric_db :: db where
  "cric_db = empty_db
     (''Stadium'' := [\<lparr>pk = 1, vals = [(''name'', Str ''Eden Park''), (''slug'', Str ''eden-park'')]\<rparr>],
      ''StadiumFeature'' := [\<lparr>pk = 1, vals = [(''stadium'', Ref 1), (''key'', Str ''soil''),
                                               (''value'', Str ''clay'')]\<rparr>],
      ''Pitch'' := [\<lparr>pk = 1, vals = [(''stadium'', Ref 1), (''name'', Str ''Main'')]\<rparr>],
      ''PitchMetric'' := [\<lparr>pk = 1, vals = [(''pitch'', Ref 1), (''date'', Date 2024 3 9)]\<rparr>],
      ''Match'' := [\<lparr>pk = 1, vals = [(''pitch'', Ref 1), (''stadium'', Ref 1),
                                      (''name'', Str ''First Test'')]\<rparr>],
      ''Inning'' := [\<lparr>pk = 1, vals = [(''match'', Ref 1), (''number'', Num 1)]\<rparr>],
      ''Over'' := [\<lparr>pk = 1, vals = [(''inning'', Ref 1), (''number'', Num 1)]\<rparr>])"

subsection \<open>Deleting rows\<close>

text \<open>
  A stored object is named by its model and its primary key. Deleting objects collects,
  round by round, every row that refers to a collected object through a foreign key
  declared with \<^verbatim>\<open>on_delete=CASCADE\<close>; the collected rows are removed, and in every
  row that stays a foreign key declared with \<^verbatim>\<open>on_delete=SET_NULL\<close> that refers to a
  removed object is set to NULL. A round adds nothing once no row is left to add, so as
  many rounds as there are rows suffice. The storage engine rejects a NULL in a column
  that is not nullable.
\<close>

type_synonym obj = "string \<times> nat"

definition points_at :: "on_delete \<Rightarrow> obj list \<Rightarrow> field \<Rightarrow> val \<Rightarrow> bool" where
  "points_at od objs f v =
     (case column f of
        ForeignKey T od' \<Rightarrow> od' = od \<and> (case v of Ref i \<Rightarrow> (T, i) \<in> set objs | _ \<Rightarrow> False)
      | _ \<Rightarrow> False)"

definition refers_to :: "model \<Rightarrow> row \<Rightarrow> on_delete \<Rightarrow> obj list \<Rightarrow> bool" where
  "refers_to m r od objs = list_ex (\<lambda>f. points_at od objs f (attr r (fname f))) (mfields m)"

definition cascaded :: "model list \<Rightarrow> db \<Rightarrow> obj list \<Rightarrow> obj list" where
  "cascaded schema d objs =
     concat (map (\<lambda>m. map (\<lambda>r. (mname m, pk r))
                          (filter (\<lambda>r. refers_to m r CASCADE objs) (d (mname m)))) schema)"

fun collect :: "nat \<Rightarrow> model list \<Rightarrow> db \<Rightarrow> obj list \<Rightarrow> obj list" where
  "collect 0 schema d roots = roots"
| "collect (Suc k) schema d roots = roots @ cascaded schema d (collect k schema d roots)"

definition rows_total :: "model list \<Rightarrow> db \<Rightarrow> nat" where
  "rows_total schema d = sum_list (map (\<lambda>m. length (d (mname m))) schema)"

definition nulled :: "model \<Rightarrow> obj list \<Rightarrow> string \<Rightarrow> val \<Rightarrow> bool" where
  "nulled m objs k v = list_ex (\<lambda>f. fname f = k \<and> points_at SET_NULL objs f v) (mfields m)"

definition set_null_row :: "model \<Rightarrow> obj list \<Rightarrow> row \<Rightarrow> row" where
  "set_null_row m objs r =
     r\<lparr>vals := map (\<lambda>(k, v). (k, if nulled m objs k v then Null else v)) (vals r)\<rparr>"

definition survivors :: "obj list \<Rightarrow> string \<Rightarrow> row list \<Rightarrow> row list" where
  "survivors objs M rows = filter (\<lambda>r. (M, pk r) \<notin> set objs) rows"

definition blocked :: "model list \<Rightarrow> db \<Rightarrow> obj list \<Rightarrow> bool" where
  "blocked schema d objs =
     list_ex (\<lambda>m. list_ex (\<lambda>r. list_ex (\<lambda>f. \<not> f_null f \<and>
                                           points_at SET_NULL objs f (attr r (fname f)))
                                   (mfields m))
                          (survivors objs (mname m) (d (mname m)))) schema"

definition delete_objs :: "model list \<Rightarrow> db \<Rightarrow> obj list \<Rightarrow> error + db" where
  "delete_objs schema d objs =
     (if blocked schema d objs then Inl IntegrityError
      else Inr (\<lambda>M. case find_model schema M of
                      None \<Rightarrow> d M
                    | Some m \<Rightarrow> map (set_null_row m objs) (survivors objs M (d M))))"

text \<open>\<^verbatim>\<open>delete()\<close> of the objects \<open>roots\<close>.\<close>

definition delete :: "model list \<Rightarrow> db \<Rightarrow> obj list \<Rightarrow> error + db" where
  "delete schema d roots = delete_objs schema d (collect (rows_total schema d) schema d roots)"

text \<open>Where every foreign key declared with SET_NULL is nullable, nothing blocks a
  deletion.\<close>

definition set_null_nullable :: "model list \<Rightarrow> bool" where
  "set_null_nullable schema =
     list_all (\<lambda>m. list_all (\<lambda>f. case column f of
                                     ForeignKey T SET_NULL \<Rightarrow> f_null f
                                   | _ \<Rightarrow> True) (mfields m)) schema"

text \<open>A row of a model that has no foreign key declared with CASCADE is collected only
  as a root.\<close>

definition has_cascade :: "model \<Rightarrow> bool" where
  "has_cascade m =
     list_ex (\<lambda>f. case column f of ForeignKey T CASCADE \<Rightarrow> True | _ \<Rightarrow> False) (mfields m)"

text \<open>The database \<open>cric_db\<close> with a snapshot, a soil sample, a satellite image and a
  camera image of its pitch, and a sensor device on that pitch with two readings.\<close>

definition sensor_db :: db where
  "sensor_db = cric_db
     (''PitchSnapshot'' := [\<lparr>pk = 1, vals = [(''pitch'', Ref 1), (''source'', Str ''drone'')]\<rparr>],
      ''SoilSample'' := [\<lparr>pk = 1, vals = [(''pitch'', Ref 1), (''ph'', Num 6)]\<rparr>],
      ''SatelliteImage'' := [\<lparr>pk = 1, vals = [(''pitch'', Ref 1), (''provider'', Str ''esa'')]\<rparr>],
      ''CameraImage'' := [\<lparr>pk = 1, vals = [(''pitch'', Ref 1), (''provider'', Str ''club'')]\<rparr>],
      ''SensorDevice'' := [\<lparr>pk = 1, vals = [(''uid'', Str ''probe-1''),
                                            (''device_type'', Str ''moisture''),
                                            (''pitch'', Ref 1)]\<rparr>],
      ''SensorReading'' := [\<lparr>pk = 1, vals = [(''device'', Ref 1), (''value'', Num 31)]\<rparr>,
                            \<lparr>pk = 2, vals = [(''device'', Ref 1), (''value'', Num 29)]\<rparr>])"

section \<open>The loop body, case by case\<close>

lemma get_Stadium_cases:
  "get d Stadium ''name'' (Str n) =
     (case stadiums_named d n of [] \<Rightarrow> Inl DoesNotExist | [r] \<Rightarrow> Inr r
      | _ \<Rightarrow> Inl MultipleObjectsReturned)"
  by (simp add: get_def stadiums_named_def Stadium_def)

lemma create_Stadium:
  "create d Stadium [(''name'', Str n), (''country'', Str c), (''location'', Pt x y)]
   = Inr (\<lparr>pk = next_pk (d ''Stadium''),
            vals = [(''name'', Str n), (''city'', Null), (''country'', Str c),
                    (''location'', Pt x y)]\<rparr>,
          d(''Stadium'' := d ''Stadium'' @ [\<lparr>pk = next_pk (d ''Stadium''),
            vals = [(''name'', Str n), (''city'', Null), (''country'', Str c),
                    (''location'', Pt x y)]\<rparr>]))"
  by (simp add: create_def init_vals_def insert_row_def Stadium_def fld_def nullable_def
      is_column_def get_default_def empty_strings_allowed_def violates_not_null_def
      violates_unique_def violates_unique_together_def violates_foreign_key_def attr_def
      get_field_def Let_def)

lemma create_Pitch:
  assumes "list_ex (\<lambda>r'. pk r' = s) (d ''Stadium'')"
  shows "create d Pitch
           [(''stadium'', Ref s), (''name'', Str ''Main Pitch''), (''area'', Poly ps),
            (''centroid'', Pt x y), (''surface_type'', Str ''grass''),
            (''current_condition'', Str ''balanced'')]
   = Inr (\<lparr>pk = next_pk (d ''Pitch''),
            vals = [(''stadium'', Ref s), (''name'', Str ''Main Pitch''), (''area'', Poly ps),
              (''centroid'', Pt x y), (''surface_type'', Str ''grass''),
              (''current_condition'', Str ''balanced'')]\<rparr>,
      d(''Pitch'' := d ''Pitch'' @ [\<lparr>pk = next_pk (d ''Pitch''),
            vals = [(''stadium'', Ref s), (''name'', Str ''Main Pitch''), (''area'', Poly ps),
              (''centroid'', Pt x y), (''surface_type'', Str ''grass''),
              (''current_condition'', Str ''balanced'')]\<rparr>]))"
  using assms
  by (simp add: create_def init_vals_def insert_row_def Pitch_def fld_def nullable_def
      with_default_def
      is_column_def get_default_def empty_strings_allowed_def violates_not_null_def
      violates_unique_def violates_unique_together_def violates_foreign_key_def attr_def
      get_field_def Let_def)

lemma seed_venue_created:
  assumes "stadiums_named d (name data) = []"
  shows "seed_venue data (d, out) =
     Inr (created d data, out @ [SUCCESS (''Created stadium and pitch: '' @ name data)])"
proof -
  obtain lat lon where "coords data = (lat, lon)" by (rule prod.exhaust)
  with assms show ?thesis
    by (simp add: seed_venue_def get_or_create_def get_Stadium_cases create_Stadium
        create_Pitch polygon_def attr_def get_field_def created_def stadium_row_def
        pitch_row_def Point_def)
qed

lemma stadiums_named_attr:
  assumes "stadiums_named d n = r # rs"
  shows "attr r ''name'' = Str n"
proof -
  have "r \<in> set (stadiums_named d n)" using assms by simp
  then show ?thesis by (simp add: stadiums_named_def attr_def)
qed

lemma seed_venue_exists:
  assumes "stadiums_named d (name data) = [r]"
  shows "seed_venue data (d, out) =
     Inr (d, out @ [PLAIN (''Stadium already exists: '' @ name data)])"
  using assms stadiums_named_attr [OF assms]
  by (simp add: seed_venue_def get_or_create_def get_Stadium_cases)

lemma seed_venue_multiple:
  assumes "stadiums_named d (name data) = r1 # r2 # rs"
  shows "seed_venue data (d, out) = Inl (MultipleObjectsReturned, (d, out))"
  using assms
  by (simp add: seed_venue_def get_or_create_def get_Stadium_cases)

lemma stadiums_named_created:
  "stadiums_named (created d data) n
   = stadiums_named d n @ (if n = name data then [stadium_row (next_pk (d ''Stadium'')) data] else [])"
  by (simp add: stadiums_named_def get_field_def stadium_row_def created_def)

lemma seed_venue_at_most_one:
  assumes "length (stadiums_named d (name data)) \<le> 1"
  shows "seed_venue data (d, out) =
     Inr (if stadiums_named d (name data) = [] then created d data else d,
          out @ [message d data])"
proof (cases "stadiums_named d (name data)")
  case Nil
  then show ?thesis by (simp add: seed_venue_created message_def)
next
  case (Cons r rs)
  with assms have "stadiums_named d (name data) = [r]" by simp
  then show ?thesis by (simp add: seed_venue_exists message_def)
qed

lemma stadiums_named_other:
  assumes "n \<noteq> name data"
  shows "stadiums_named (created d data) n = stadiums_named d n"
  using assms by (simp add: stadiums_named_created)

lemma stadiums_named_later:
  assumes "v \<in> set vs" and "name data \<notin> set (map name vs)"
  shows "stadiums_named (created d data) (name v) = stadiums_named d (name v)"
proof -
  from assms(1) have "name v \<in> name ` set vs" by (rule imageI)
  with assms(2) have "name v \<noteq> name data" by (metis set_map)
  then show ?thesis by (rule stadiums_named_other)
qed

lemma at_most_one_step:
  assumes "at_most_one vs d" and "name data \<notin> set (map name vs)"
  shows "at_most_one vs (created d data)"
  using assms by (simp add: at_most_one_def list_all_iff stadiums_named_later)

lemma message_step:
  assumes "name data \<notin> set (map name vs)"
  shows "map (message (created d data)) vs = map (message d) vs"
proof (rule map_cong [OF refl])
  fix v assume "v \<in> set vs"
  then show "message (created d data) v = message d v"
    using assms by (simp add: message_def stadiums_named_later)
qed

lemma seed_loop_ok:
  assumes "distinct (map name vs)" and "at_most_one vs d"
  shows "seed_loop vs (d, out) = Inr (seeded vs d, out @ map (message d) vs)"
  using assms
proof (induction vs arbitrary: d out)
  case Nil
  then show ?case by simp
next
  case (Cons data rest)
  let ?d1 = "if stadiums_named d (name data) = [] then created d data else d"
  from Cons.prems have one: "length (stadiums_named d (name data)) \<le> 1"
    and rest: "at_most_one rest d" and fresh: "name data \<notin> set (map name rest)"
    and dist: "distinct (map name rest)"
    by (simp_all add: at_most_one_def)
  have inv: "at_most_one rest ?d1"
    using rest fresh by (simp add: at_most_one_step)
  have msg: "map (message ?d1) rest = map (message d) rest"
    using message_step [OF fresh] by simp
  show ?case
    using Cons.IH [OF dist inv, of "out @ [message d data]"] msg
    by (simp add: seed_venue_at_most_one [OF one])
qed

lemma seeded_other_name:
  assumes "n \<notin> set (map name vs)"
  shows "stadiums_named (seeded vs d) n = stadiums_named d n"
  using assms
proof (induction vs arbitrary: d)
  case Nil
  then show ?case by simp
next
  case (Cons data rest)
  then have "n \<noteq> name data" and "n \<notin> set (map name rest)" by auto
  then show ?case using Cons.IH by (simp add: stadiums_named_other)
qed

lemma seeded_name:
  assumes "distinct (map name vs)" and "v \<in> set vs"
  shows "stadiums_named (seeded vs d) (name v) =
           (if stadiums_named d (name v) = []
            then [stadium_row (next_pk (seeded (takeWhile (\<lambda>u. name u \<noteq> name v) vs) d ''Stadium'')) v]
            else stadiums_named d (name v))"
  using assms
proof (induction vs arbitrary: d)
  case Nil
  then show ?case by simp
next
  case (Cons data rest)
  show ?case
  proof (cases "name data = name v")
    case True
    with Cons.prems have "v = data"
      by (metis distinct.simps(2) image_eqI list.simps(9) set_ConsD set_map)
    moreover from Cons.prems have "name data \<notin> set (map name rest)" by simp
    ultimately show ?thesis
      by (simp add: seeded_other_name stadiums_named_created)
  next
    case False
    with Cons.prems have "v \<in> set rest" and "distinct (map name rest)" by auto
    from Cons.IH [OF this(2) this(1)] False show ?thesis
      by (simp add: stadiums_named_other)
  qed
qed

lemma seeded_fixed:
  assumes "list_all (\<lambda>v. stadiums_named d (name v) \<noteq> []) vs"
  shows "seeded vs d = d"
  using assms by (induction vs) simp_all

lemma seeded_all_present:
  assumes "distinct (map name vs)"
  shows "list_all (\<lambda>v. stadiums_named (seeded vs d) (name v) \<noteq> []) vs"
  using assms by (simp add: list_all_iff seeded_name)

lemma seeded_at_most_one:
  assumes "distinct (map name vs)" and "at_most_one vs d"
  shows "at_most_one vs (seeded vs d)"
  using assms by (simp add: at_most_one_def list_all_iff seeded_name)

lemma seeded_idem:
  assumes "distinct (map name vs)"
  shows "seeded vs (seeded vs d) = seeded vs d"
  by (rule seeded_fixed) (rule seeded_all_present [OF assms])

section \<open>The whole run\<close>

lemma distinct_names: "distinct (map name stadiums_data)"
  by (simp add: stadiums_data_def)

lemma missing_step:
  assumes "name data \<notin> set (map name vs)"
  shows "missing vs (created d data) = missing vs d"
  unfolding missing_def
proof (rule filter_cong [OF refl])
  fix v assume "v \<in> set vs"
  then show "(stadiums_named (created d data) (name v) = []) = (stadiums_named d (name v) = [])"
    using assms by (simp add: stadiums_named_later)
qed

lemma created_tables:
  "created d data ''Stadium'' = d ''Stadium'' @ [stadium_row (next_pk (d ''Stadium'')) data]"
  "created d data ''Pitch'' =
     d ''Pitch'' @ [pitch_row (next_pk (d ''Pitch'')) (next_pk (d ''Stadium'')) data]"
  "M \<noteq> ''Stadium'' \<Longrightarrow> M \<noteq> ''Pitch'' \<Longrightarrow> created d data M = d M"
  by (simp_all add: created_def)

lemma seeded_tables:
  assumes "distinct (map name vs)"
  shows "\<exists>news newp.
           seeded vs d ''Stadium'' = d ''Stadium'' @ news \<and>
           seeded vs d ''Pitch'' = d ''Pitch'' @ newp \<and>
           map (\<lambda>r. attr r ''name'') news = map (\<lambda>v. Str (name v)) (missing vs d) \<and>
           map (\<lambda>p. attr p ''stadium'') newp = map (\<lambda>s. Ref (pk s)) news"
  using assms
proof (induction vs arbitrary: d)
  case Nil
  then show ?case by (simp add: missing_def)
next
  case (Cons data rest)
  then have fresh: "name data \<notin> set (map name rest)" and dist: "distinct (map name rest)"
    by simp_all
  show ?case
  proof (cases "stadiums_named d (name data) = []")
    case True
    from Cons.IH [OF dist, of "created d data"] obtain news newp where
      s: "seeded rest (created d data) ''Stadium'' = created d data ''Stadium'' @ news" and
      p: "seeded rest (created d data) ''Pitch'' = created d data ''Pitch'' @ newp" and
      n: "map (\<lambda>r. attr r ''name'') news = map (\<lambda>v. Str (name v)) (missing rest (created d data))" and
      f: "map (\<lambda>p. attr p ''stadium'') newp = map (\<lambda>s. Ref (pk s)) news"
      by blast
    let ?s = "stadium_row (next_pk (d ''Stadium'')) data"
    let ?p = "pitch_row (next_pk (d ''Pitch'')) (next_pk (d ''Stadium'')) data"
    have "seeded (data # rest) d ''Stadium'' = d ''Stadium'' @ (?s # news)"
      using True s by (simp add: created_tables)
    moreover have "seeded (data # rest) d ''Pitch'' = d ''Pitch'' @ (?p # newp)"
      using True p by (simp add: created_tables)
    moreover have "map (\<lambda>r. attr r ''name'') (?s # news)
                 = map (\<lambda>v. Str (name v)) (missing (data # rest) d)"
      using True n missing_step [OF fresh, of d]
      by (simp add: missing_def attr_def get_field_def stadium_row_def)
    moreover have "map (\<lambda>p. attr p ''stadium'') (?p # newp) = map (\<lambda>s. Ref (pk s)) (?s # news)"
      using f by (simp add: attr_def get_field_def stadium_row_def pitch_row_def)
    ultimately show ?thesis by blast
  next
    case False
    from Cons.IH [OF dist, of d] False show ?thesis
      by (simp add: missing_def)
  qed
qed

lemma seeded_other_table:
  assumes "M \<noteq> ''Stadium''" and "M \<noteq> ''Pitch''"
  shows "seeded vs d M = d M"
  using assms by (induction vs arbitrary: d) (simp_all add: created_tables)

lemma stadiums_named_empty: "stadiums_named empty_db n = []"
  by (simp add: stadiums_named_def empty_db_def)

lemma message_present:
  assumes "list_all (\<lambda>v. stadiums_named d (name v) \<noteq> []) vs"
  shows "map (message d) vs = map (\<lambda>v. PLAIN (''Stadium already exists: '' @ name v)) vs"
  using assms by (induction vs) (simp_all add: message_def)

text \<open>
  Claim C1. On a database with no Stadium and no Pitch row, the command run twice in
  succession leaves ten Stadium rows and ten Pitch rows: the first run returns the
  database \<open>d1\<close>, the second run returns without an error, leaves \<open>d1\<close> as it is (every
  table, row for row) and writes the already-exists line for each of the ten venues.
\<close>

theorem seed_twice:
  "\<exists>d1 out1 out2.
     handle empty_db = Inr (d1, out1) \<and> handle d1 = Inr (d1, out2) \<and>
     length (d1 ''Stadium'') = 10 \<and> length (d1 ''Pitch'') = 10 \<and>
     out2 = map (\<lambda>v. PLAIN (''Stadium already exists: '' @ name v)) stadiums_data"
proof -
  let ?d1 = "seeded stadiums_data empty_db"
  have one0: "at_most_one stadiums_data empty_db"
    by (simp add: at_most_one_def list_all_iff stadiums_named_empty)
  have run1: "handle empty_db = Inr (?d1, map (message empty_db) stadiums_data)"
    using seed_loop_ok [OF distinct_names one0, of "[]"] by (simp add: handle_def)
  have one1: "at_most_one stadiums_data ?d1"
    by (rule seeded_at_most_one [OF distinct_names one0])
  have present: "list_all (\<lambda>v. stadiums_named ?d1 (name v) \<noteq> []) stadiums_data"
    by (rule seeded_all_present [OF distinct_names])
  have run2: "handle ?d1 = Inr (?d1, map (\<lambda>v. PLAIN (''Stadium already exists: '' @ name v)) stadiums_data)"
    using seed_loop_ok [OF distinct_names one1, of "[]"]
    by (simp add: handle_def seeded_idem [OF distinct_names] message_present [OF present])
  have all_missing: "missing stadiums_data empty_db = stadiums_data"
    by (simp add: missing_def stadiums_named_empty)
  from seeded_tables [OF distinct_names, of empty_db] obtain news newp where
    s: "?d1 ''Stadium'' = empty_db ''Stadium'' @ news" and
    p: "?d1 ''Pitch'' = empty_db ''Pitch'' @ newp" and
    n: "map (\<lambda>r. attr r ''name'') news = map (\<lambda>v. Str (name v)) (missing stadiums_data empty_db)" and
    f: "map (\<lambda>p. attr p ''stadium'') newp = map (\<lambda>s. Ref (pk s)) news"
    by blast
  have "length news = length stadiums_data"
    using n all_missing by (metis length_map)
  moreover have "length newp = length news"
    using f by (metis length_map)
  moreover have "length stadiums_data = 10"
    by (simp add: stadiums_data_def)
  ultimately have "length (?d1 ''Stadium'') = 10" and "length (?d1 ''Pitch'') = 10"
    using s p by (simp_all add: empty_db_def)
  with run1 run2 show ?thesis by blast
qed

text \<open>
  Claim C3, as amended. On a database in which no venue name is carried by two or more
  Stadium rows, the run returns and, venue by venue: writes exactly one line, the
  creation line when no Stadium of that name was stored and the already-exists line
  otherwise; appends one Stadium row for exactly the venues whose name was not stored,
  in the order of the table; and appends one Pitch row for each appended Stadium row,
  referring to it, and no other.
\<close>

theorem seed_per_venue:
  assumes "at_most_one stadiums_data d"
  shows "\<exists>d' news newp.
           handle d = Inr (d', map (message d) stadiums_data) \<and>
           d' ''Stadium'' = d ''Stadium'' @ news \<and>
           d' ''Pitch'' = d ''Pitch'' @ newp \<and>
           map (\<lambda>r. attr r ''name'') news = map (\<lambda>v. Str (name v)) (missing stadiums_data d) \<and>
           map (\<lambda>p. attr p ''stadium'') newp = map (\<lambda>s. Ref (pk s)) news"
proof -
  have "handle d = Inr (seeded stadiums_data d, map (message d) stadiums_data)"
    using seed_loop_ok [OF distinct_names assms, of "[]"] by (simp add: handle_def)
  with seeded_tables [OF distinct_names, of d] show ?thesis by blast
qed

lemma at_most_one_one_oval: "at_most_one stadiums_data one_oval"
  by (simp add: at_most_one_def stadiums_data_def stadiums_named_def one_oval_def
      empty_db_def get_field_def)

theorem seed_per_venue_witness:
  "at_most_one stadiums_data one_oval \<and>
   (\<exists>d' news newp.
      handle one_oval = Inr (d', map (message one_oval) stadiums_data) \<and>
      d' ''Stadium'' = one_oval ''Stadium'' @ news \<and>
      d' ''Pitch'' = one_oval ''Pitch'' @ newp \<and>
      map (\<lambda>r. attr r ''name'') news = map (\<lambda>v. Str (name v)) (missing stadiums_data one_oval) \<and>
      map (\<lambda>p. attr p ''stadium'') newp = map (\<lambda>s. Ref (pk s)) news)"
  using seed_per_venue [OF at_most_one_one_oval] at_most_one_one_oval by simp

lemma seed_loop_append:
  "seed_loop (xs @ ys) st =
     (case seed_loop xs st of Inl e \<Rightarrow> Inl e | Inr st' \<Rightarrow> seed_loop ys st')"
  by (induction xs arbitrary: st) (simp_all split: sum.splits)

lemma stadiums_named_two_eden:
  "stadiums_named two_eden n = (if n = ''Eden Park'' then two_eden ''Stadium'' else [])"
  by (simp add: stadiums_named_def two_eden_def empty_db_def get_field_def)

theorem seed_per_venue_counterexample:
  "handle two_eden =
     Inl (MultipleObjectsReturned,
          (seeded (take 2 stadiums_data) two_eden,
           [SUCCESS ''Created stadium and pitch: Lord's Cricket Ground'',
            SUCCESS ''Created stadium and pitch: Melbourne Cricket Ground''])) \<and>
   stadiums_named two_eden ''The Oval'' = [] \<and>
   stadiums_named (seeded (take 2 stadiums_data) two_eden) ''The Oval'' = []"
proof -
  let ?pre = "take 2 stadiums_data"
  let ?eden = "stadiums_data ! 2"
  have split: "stadiums_data = ?pre @ ?eden # drop 3 stadiums_data"
    by (simp add: stadiums_data_def)
  have dist: "distinct (map name ?pre)"
    by (simp add: stadiums_data_def)
  have one: "at_most_one ?pre two_eden"
    by (simp add: at_most_one_def stadiums_data_def stadiums_named_two_eden)
  have msgs: "map (message two_eden) ?pre =
      [SUCCESS ''Created stadium and pitch: Lord's Cricket Ground'',
       SUCCESS ''Created stadium and pitch: Melbourne Cricket Ground'']"
    by (simp add: stadiums_data_def message_def stadiums_named_two_eden)
  have pre: "seed_loop ?pre (two_eden, []) = Inr (seeded ?pre two_eden, map (message two_eden) ?pre)"
    using seed_loop_ok [OF dist one, of "[]"] by simp
  have "name ?eden \<notin> set (map name ?pre)"
    by (simp add: stadiums_data_def)
  then have "stadiums_named (seeded ?pre two_eden) (name ?eden) = stadiums_named two_eden (name ?eden)"
    by (rule seeded_other_name)
  also have "\<dots> = two_eden ''Stadium''"
    by (simp add: stadiums_data_def stadiums_named_two_eden)
  finally have "\<exists>r1 r2 rs. stadiums_named (seeded ?pre two_eden) (name ?eden) = r1 # r2 # rs"
    by (simp add: two_eden_def)
  then obtain r1 r2 rs where
    "stadiums_named (seeded ?pre two_eden) (name ?eden) = r1 # r2 # rs" by blast
  then have raise: "seed_venue ?eden (seeded ?pre two_eden, map (message two_eden) ?pre) =
      Inl (MultipleObjectsReturned, (seeded ?pre two_eden, map (message two_eden) ?pre))"
    by (rule seed_venue_multiple)
  have "handle two_eden = seed_loop (?pre @ ?eden # drop 3 stadiums_data) (two_eden, [])"
    unfolding handle_def using split by simp
  also have "\<dots> = Inl (MultipleObjectsReturned, (seeded ?pre two_eden, map (message two_eden) ?pre))"
    unfolding seed_loop_append pre using raise by simp
  finally have run: "handle two_eden =
      Inl (MultipleObjectsReturned, (seeded ?pre two_eden, map (message two_eden) ?pre))" .
  have "''The Oval'' \<notin> set (map name ?pre)"
    by (simp add: stadiums_data_def)
  then have "stadiums_named (seeded ?pre two_eden) ''The Oval'' = stadiums_named two_eden ''The Oval''"
    by (rule seeded_other_name)
  then show ?thesis
    using run msgs by (simp add: stadiums_named_two_eden)
qed

section \<open>The lookup before the insert\<close>

lemma get_or_create_Stadium:
  "get_or_create d Stadium ''name'' (Str (name data)) (defaults data) =
     (case stadiums_named d (name data) of
        [] \<Rightarrow> Inr ((stadium_row (next_pk (d ''Stadium'')) data, True),
                   d(''Stadium'' := d ''Stadium'' @ [stadium_row (next_pk (d ''Stadium'')) data]))
      | [r] \<Rightarrow> Inr ((r, False), d)
      | r # r' # rs \<Rightarrow> Inl MultipleObjectsReturned)"
  by (simp add: get_or_create_def get_Stadium_cases create_Stadium defaults_def stadium_row_def
      Point_def split: list.splits)

text \<open>
  Claim C4, as amended. The lookup is by the stadium's name, which no constraint makes
  unique. On a database in which no venue name is carried by two or more Stadium rows,
  the run returns without an error, and each of the ten lookups, made on the database
  that the passes before it have left, either finds the one Stadium row of that name or
  inserts a new one.
\<close>

theorem seed_no_error:
  assumes "at_most_one stadiums_data d"
  shows "(\<exists>st. handle d = Inr st) \<and>
         (\<forall>pre data post. stadiums_data = pre @ data # post \<longrightarrow>
            (\<exists>d0 out0. seed_loop pre (d, []) = Inr (d0, out0) \<and>
               length (stadiums_named d0 (name data)) \<le> 1 \<and>
               get_or_create d0 Stadium ''name'' (Str (name data)) (defaults data) =
                 (case stadiums_named d0 (name data) of
                    [] \<Rightarrow> Inr ((stadium_row (next_pk (d0 ''Stadium'')) data, True),
                               d0(''Stadium'' := d0 ''Stadium'' @ [stadium_row (next_pk (d0 ''Stadium'')) data]))
                  | r # rs \<Rightarrow> Inr ((r, False), d0))))"
proof (intro conjI allI impI)
  show "\<exists>st. handle d = Inr st"
    using seed_loop_ok [OF distinct_names assms, of "[]"] by (simp add: handle_def)
next
  fix pre data post
  assume split: "stadiums_data = pre @ data # post"
  have dist: "distinct (map name (pre @ data # post))"
    using distinct_names split by simp
  then have dpre: "distinct (map name pre)" and fresh: "name data \<notin> set (map name pre)"
    by auto
  have all: "at_most_one (pre @ data # post) d"
    using assms split by simp
  then have opre: "at_most_one pre d" and odata: "length (stadiums_named d (name data)) \<le> 1"
    by (simp_all add: at_most_one_def)
  let ?d0 = "seeded pre d"
  have run: "seed_loop pre (d, []) = Inr (?d0, map (message d) pre)"
    using seed_loop_ok [OF dpre opre, of "[]"] by simp
  have same: "stadiums_named ?d0 (name data) = stadiums_named d (name data)"
    using fresh by (rule seeded_other_name)
  with odata have one: "length (stadiums_named ?d0 (name data)) \<le> 1" by simp
  then have "get_or_create ?d0 Stadium ''name'' (Str (name data)) (defaults data) =
                 (case stadiums_named ?d0 (name data) of
                    [] \<Rightarrow> Inr ((stadium_row (next_pk (?d0 ''Stadium'')) data, True),
                               ?d0(''Stadium'' := ?d0 ''Stadium'' @ [stadium_row (next_pk (?d0 ''Stadium'')) data]))
                  | r # rs \<Rightarrow> Inr ((r, False), ?d0))"
    unfolding get_or_create_Stadium by (auto split: list.splits)
  with run one show "\<exists>d0 out0. seed_loop pre (d, []) = Inr (d0, out0) \<and>
               length (stadiums_named d0 (name data)) \<le> 1 \<and>
               get_or_create d0 Stadium ''name'' (Str (name data)) (defaults data) =
                 (case stadiums_named d0 (name data) of
                    [] \<Rightarrow> Inr ((stadium_row (next_pk (d0 ''Stadium'')) data, True),
                               d0(''Stadium'' := d0 ''Stadium'' @ [stadium_row (next_pk (d0 ''Stadium'')) data]))
                  | r # rs \<Rightarrow> Inr ((r, False), d0))"
    by blast
qed

lemma at_most_one_one_lords: "at_most_one stadiums_data one_lords"
  by (simp add: at_most_one_def stadiums_data_def stadiums_named_def one_lords_def
      lords_row_def empty_db_def get_field_def)

theorem seed_no_error_witness:
  "at_most_one stadiums_data one_lords \<and>
   stadiums_data = take 1 stadiums_data @ stadiums_data ! 1 # drop 2 stadiums_data \<and>
   (\<exists>st. handle one_lords = Inr st) \<and>
   (\<exists>d0 out0. seed_loop (take 1 stadiums_data) (one_lords, []) = Inr (d0, out0) \<and>
      length (stadiums_named d0 (name (stadiums_data ! 1))) \<le> 1 \<and>
      get_or_create d0 Stadium ''name'' (Str (name (stadiums_data ! 1))) (defaults (stadiums_data ! 1)) =
        (case stadiums_named d0 (name (stadiums_data ! 1)) of
           [] \<Rightarrow> Inr ((stadium_row (next_pk (d0 ''Stadium'')) (stadiums_data ! 1), True),
                      d0(''Stadium'' := d0 ''Stadium'' @ [stadium_row (next_pk (d0 ''Stadium'')) (stadiums_data ! 1)]))
         | r # rs \<Rightarrow> Inr ((r, False), d0)))"
proof -
  have split: "stadiums_data = take 1 stadiums_data @ stadiums_data ! 1 # drop 2 stadiums_data"
    by (simp add: stadiums_data_def)
  from seed_no_error [OF at_most_one_one_lords] split at_most_one_one_lords
  show ?thesis by blast
qed

lemma stadiums_named_two_lords:
  "stadiums_named two_lords ''Lord's Cricket Ground'' = [lords_row 1, lords_row 2]"
  by (simp add: stadiums_named_def two_lords_def lords_row_def empty_db_def get_field_def)

theorem seed_no_error_counterexample:
  "create empty_db Stadium [(''name'', Str ''Lord's Cricket Ground'')] = Inr (lords_row 1, one_lords) \<and>
   create one_lords Stadium [(''name'', Str ''Lord's Cricket Ground'')] = Inr (lords_row 2, two_lords) \<and>
   handle two_lords = Inl (MultipleObjectsReturned, (two_lords, []))"
proof -
  have c1: "create empty_db Stadium [(''name'', Str ''Lord's Cricket Ground'')] = Inr (lords_row 1, one_lords)"
    by (simp add: create_def init_vals_def insert_row_def Stadium_def fld_def nullable_def
      is_column_def get_default_def empty_strings_allowed_def violates_not_null_def
      violates_unique_def violates_unique_together_def violates_foreign_key_def attr_def
      get_field_def Let_def next_pk_def lords_row_def one_lords_def empty_db_def)
  have c2: "create one_lords Stadium [(''name'', Str ''Lord's Cricket Ground'')] = Inr (lords_row 2, two_lords)"
    by (simp add: create_def init_vals_def insert_row_def Stadium_def fld_def nullable_def
      is_column_def get_default_def empty_strings_allowed_def violates_not_null_def
      violates_unique_def violates_unique_together_def violates_foreign_key_def attr_def
      get_field_def Let_def next_pk_def lords_row_def one_lords_def two_lords_def empty_db_def
      numeral_2_eq_2)
  have "name (hd stadiums_data) = ''Lord's Cricket Ground''"
    by (simp add: stadiums_data_def)
  then have "seed_venue (hd stadiums_data) (two_lords, []) = Inl (MultipleObjectsReturned, (two_lords, []))"
    using seed_venue_multiple [of two_lords "hd stadiums_data" "lords_row 1" "lords_row 2" "[]" "[]"]
    by (simp add: stadiums_named_two_lords)
  then have "handle two_lords = Inl (MultipleObjectsReturned, (two_lords, []))"
    by (simp add: handle_def stadiums_data_def)
  with c1 c2 show ?thesis by simp
qed

section \<open>The pitch polygon\<close>

lemmas dbl_eval = dbl_def to_double_def with_exponent_def exponent_def exponent_from_def
  ge_pow2_def scaled_round_def round_half_even_def round_qr_def bitlen.simps
  fadd_def fadd_at_def fsub_def fsub_at_def aligned_def round_dyadic_def fneg_def value_def

lemma delta_value: "delta = (5534023222112865, - 64)"
  by (simp add: delta_def dbl_eval)

lemma all_centred: "list_all centred stadiums_data"
  by (simp add: stadiums_data_def centred_def west_def east_def south_def north_def
      delta_value dbl_eval)

lemma all_near_0006: "list_all near_0006 stadiums_data"
  by (simp add: stadiums_data_def near_0006_def west_def east_def south_def north_def
      delta_value dbl_eval)

lemma polygon_box:
  "polygon (fst (coords data)) (snd (coords data)) =
     Poly (box (west data) (east data) (south data) (north data))"
  by (simp add: polygon_def box_def west_def east_def south_def north_def)

lemma box_shape:
  "closed (box x1 x2 y1 y2)" "length (box x1 x2 y1 y2) = 5"
  "hd (box x1 x2 y1 y2) = last (box x1 x2 y1 y2)"
  "corners (box x1 x2 y1 y2) = [(x1, y1), (x1, y2), (x2, y2), (x2, y1)]"
  by (simp_all add: box_def closed_def corners_def)

lemma box_rectangle:
  assumes "x1 \<noteq> x2" and "y1 \<noteq> y2"
  shows "rectangle (corners (box x1 x2 y1 y2))"
  using assms by (simp add: box_shape sq_dist_def power2_eq_square algebra_simps)

lemma box_area2: "area2 (box x1 x2 y1 y2) = - 2 * (x2 - x1) * (y2 - y1)"
  by (simp add: area2_def edges_def cross_def box_def algebra_simps)

lemma box_centroid:
  assumes "x1 \<noteq> x2" and "y1 \<noteq> y2"
  shows "centroid (box x1 x2 y1 y2) = ((x1 + x2) / 2, (y1 + y2) / 2)"
proof -
  let ?a = "- 2 * (x2 - x1) * (y2 - y1)"
  have nz: "?a \<noteq> 0" using assms by simp
  have "2 * (\<Sum>(p, q) \<leftarrow> edges (box x1 x2 y1 y2). (fst p + fst q) * cross p q)
            = 3 * ?a * (x1 + x2)"
    by (simp add: edges_def cross_def box_def algebra_simps)
  then have sx: "(\<Sum>(p, q) \<leftarrow> edges (box x1 x2 y1 y2). (fst p + fst q) * cross p q)
            = 3 * ?a * ((x1 + x2) / 2)"
    by simp
  have "2 * (\<Sum>(p, q) \<leftarrow> edges (box x1 x2 y1 y2). (snd p + snd q) * cross p q)
            = 3 * ?a * (y1 + y2)"
    by (simp add: edges_def cross_def box_def algebra_simps)
  then have sy: "(\<Sum>(p, q) \<leftarrow> edges (box x1 x2 y1 y2). (snd p + snd q) * cross p q)
            = 3 * ?a * ((y1 + y2) / 2)"
    by simp
  have cancel: "3 * ?a * c / (3 * ?a) = c" for c
    using nz by simp
  show ?thesis
    unfolding centroid_def box_area2 sx sy by (simp only: cancel)
qed

lemma venue_centred:
  assumes "data \<in> set stadiums_data"
  shows "centred data"
  using assms all_centred by (simp add: list_all_iff)

text \<open>
  Claim C2. A pass of the loop body that creates a Stadium row for one of the ten venues
  creates exactly one Pitch row with it: the row refers to the new Stadium, is named
  "Main Pitch", and its area is a closed ring through four corners that form a rectangle
  whose centroid is the point stored as the Stadium's location.
\<close>

theorem created_pitch:
  assumes "data \<in> set stadiums_data" and "stadiums_named d (name data) = []"
  shows "\<exists>d' out' s p ring.
           seed_venue data (d, out) = Inr (d', out') \<and>
           d' ''Stadium'' = d ''Stadium'' @ [s] \<and>
           d' ''Pitch'' = d ''Pitch'' @ [p] \<and>
           attr p ''stadium'' = Ref (pk s) \<and>
           attr p ''name'' = Str ''Main Pitch'' \<and>
           attr p ''area'' = Poly ring \<and>
           closed ring \<and> length (corners ring) = 4 \<and> rectangle (corners ring) \<and>
           attr s ''location'' = Pt (fst (centroid ring)) (snd (centroid ring))"
proof -
  let ?s = "stadium_row (next_pk (d ''Stadium'')) data"
  let ?p = "pitch_row (next_pk (d ''Pitch'')) (next_pk (d ''Stadium'')) data"
  let ?ring = "box (west data) (east data) (south data) (north data)"
  from venue_centred [OF assms(1)] have
    we: "west data \<noteq> east data" and sn: "south data \<noteq> north data" and
    cx: "(west data + east data) / 2 = value (snd (coords data))" and
    cy: "(south data + north data) / 2 = value (fst (coords data))"
    by (simp_all add: centred_def)
  have run: "seed_venue data (d, out) =
      Inr (created d data, out @ [SUCCESS (''Created stadium and pitch: '' @ name data)])"
    using assms(2) by (rule seed_venue_created)
  have "attr ?p ''stadium'' = Ref (pk ?s)" and "attr ?p ''name'' = Str ''Main Pitch''"
    by (simp_all add: attr_def get_field_def pitch_row_def stadium_row_def)
  moreover have "attr ?p ''area'' = Poly ?ring"
    by (simp add: attr_def get_field_def pitch_row_def polygon_box)
  moreover have "closed ?ring" and "length (corners ?ring) = 4"
    by (simp_all add: box_shape)
  moreover have "rectangle (corners ?ring)"
    using we sn by (rule box_rectangle)
  moreover have "attr ?s ''location'' = Pt (fst (centroid ?ring)) (snd (centroid ?ring))"
    by (simp add: box_centroid [OF we sn] cx cy attr_def get_field_def stadium_row_def Point_def)
  ultimately show ?thesis
    using run created_tables(1) [of d data] created_tables(2) [of d data] by blast
qed

lemma hd_stadiums_data: "hd stadiums_data \<in> set stadiums_data"
  by (simp add: stadiums_data_def)

theorem created_pitch_witness:
  "hd stadiums_data \<in> set stadiums_data \<and>
   stadiums_named empty_db (name (hd stadiums_data)) = [] \<and>
   (\<exists>d' out' s p ring.
      seed_venue (hd stadiums_data) (empty_db, []) = Inr (d', out') \<and>
      d' ''Stadium'' = empty_db ''Stadium'' @ [s] \<and>
      d' ''Pitch'' = empty_db ''Pitch'' @ [p] \<and>
      attr p ''stadium'' = Ref (pk s) \<and>
      attr p ''name'' = Str ''Main Pitch'' \<and>
      attr p ''area'' = Poly ring \<and>
      closed ring \<and> length (corners ring) = 4 \<and> rectangle (corners ring) \<and>
      attr s ''location'' = Pt (fst (centroid ring)) (snd (centroid ring)))"
  using created_pitch [OF hd_stadiums_data stadiums_named_empty, of "[]"] hd_stadiums_data
  by (simp add: stadiums_named_empty)

section \<open>What the run stores for a venue\<close>

lemma box_axis_aligned:
  assumes "x1 < x2" and "y1 < y2"
  shows "axis_aligned_rectangle (x2 - x1) (y2 - y1) ((x1 + x2) / 2, (y1 + y2) / 2)
           (corners (box x1 x2 y1 y2))"
proof -
  have "(x1 + x2) / 2 - (x2 - x1) / 2 = x1" "(x1 + x2) / 2 + (x2 - x1) / 2 = x2"
       "(y1 + y2) / 2 - (y2 - y1) / 2 = y1" "(y1 + y2) / 2 + (y2 - y1) / 2 = y2"
    by (simp_all add: field_simps)
  then show ?thesis
    using assms by (simp add: box_shape axis_parallel_def)
qed

lemma seeded_mono: "set (d M) \<subseteq> set (seeded vs d M)"
proof (induction vs arbitrary: d)
  case Nil
  then show ?case by simp
next
  case (Cons v rest)
  have "set (d M) \<subseteq> set (created d v M)"
    by (auto simp: created_def)
  with Cons [of "created d v"] Cons [of d] show ?case
    by auto
qed

lemma created_contains:
  "stadium_row (next_pk (d ''Stadium'')) data \<in> set (created d data ''Stadium'')"
  "pitch_row (next_pk (d ''Pitch'')) (next_pk (d ''Stadium'')) data \<in> set (created d data ''Pitch'')"
  by (simp_all add: created_tables)

lemma seeded_contains:
  assumes "distinct (map name vs)" and "data \<in> set vs" and "stadiums_named d (name data) = []"
  shows "\<exists>i j. stadium_row i data \<in> set (seeded vs d ''Stadium'') \<and>
               pitch_row j i data \<in> set (seeded vs d ''Pitch'')"
  using assms
proof (induction vs arbitrary: d)
  case Nil
  then show ?case by simp
next
  case (Cons v rest)
  show ?case
  proof (cases "name v = name data")
    case True
    with Cons.prems have "v = data"
      by (metis distinct.simps(2) image_eqI list.simps(9) set_ConsD set_map)
    with Cons.prems(3) have step: "seeded (v # rest) d = seeded rest (created d data)"
      by simp
    show ?thesis
      unfolding step using created_contains [of d data] seeded_mono [of "created d data" _ rest]
      by blast
  next
    case False
    with Cons.prems have mem: "data \<in> set rest" and dist: "distinct (map name rest)" by auto
    let ?d1 = "if stadiums_named d (name v) = [] then created d v else d"
    have "stadiums_named ?d1 (name data) = []"
      using False Cons.prems(3) by (simp add: stadiums_named_other)
    from Cons.IH [OF dist mem this] show ?thesis by simp
  qed
qed

lemma venue_near_0006:
  assumes "data \<in> set stadiums_data"
  shows "near_0006 data"
  using assms all_near_0006 by (simp add: list_all_iff)

text \<open>
  Claim C10, as amended. On a database in which no venue name is carried by two or more
  Stadium rows, for every venue of the table, listed as (latitude, longitude), whose name
  no stored Stadium carries, the run stores a Stadium row of that name whose location is
  the point (longitude, latitude), and a Pitch row referring to it whose area is a ring
  of five coordinates, the first equal to the last, whose four corners are, in
  (longitude, latitude) order, the corners of a rectangle with sides parallel to the axes
  and centre exactly at that location; its width and its height each differ from 0.0006
  by less than \<open>10\<^sup>-\<^sup>1\<^sup>3\<close>.
\<close>

theorem seeded_rectangle:
  assumes "at_most_one stadiums_data d" and "data \<in> set stadiums_data"
    and "stadiums_named d (name data) = []" and "coords data = (lat, lon)"
  shows "\<exists>d' out s p ring w h.
           handle d = Inr (d', out) \<and>
           s \<in> set (d' ''Stadium'') \<and> p \<in> set (d' ''Pitch'') \<and>
           attr s ''name'' = Str (name data) \<and>
           attr s ''location'' = Pt (value lon) (value lat) \<and>
           attr p ''stadium'' = Ref (pk s) \<and>
           attr p ''area'' = Poly ring \<and>
           length ring = 5 \<and> hd ring = last ring \<and>
           axis_aligned_rectangle w h (value lon, value lat) (corners ring) \<and>
           \<bar>w - 6 / 10 ^ 4\<bar> < 1 / 10 ^ 13 \<and> \<bar>h - 6 / 10 ^ 4\<bar> < 1 / 10 ^ 13"
proof -
  let ?d' = "seeded stadiums_data d"
  let ?ring = "box (west data) (east data) (south data) (north data)"
  have run: "handle d = Inr (?d', map (message d) stadiums_data)"
    using seed_loop_ok [OF distinct_names assms(1), of "[]"] by (simp add: handle_def)
  from seeded_contains [OF distinct_names assms(2) assms(3)] obtain i j where
    s: "stadium_row i data \<in> set (?d' ''Stadium'')" and
    p: "pitch_row j i data \<in> set (?d' ''Pitch'')"
    by blast
  from venue_centred [OF assms(2)] have
    we: "west data < east data" and sn: "south data < north data" and
    cx: "(west data + east data) / 2 = value lon" and
    cy: "(south data + north data) / 2 = value lat"
    using assms(4) by (simp_all add: centred_def)
  from venue_near_0006 [OF assms(2)] have
    w: "\<bar>(east data - west data) - 6 / 10 ^ 4\<bar> < 1 / 10 ^ 13" and
    h: "\<bar>(north data - south data) - 6 / 10 ^ 4\<bar> < 1 / 10 ^ 13"
    by (simp_all add: near_0006_def)
  have "attr (stadium_row i data) ''name'' = Str (name data)"
    by (simp add: attr_def get_field_def stadium_row_def)
  moreover have "attr (stadium_row i data) ''location'' = Pt (value lon) (value lat)"
    using assms(4) by (simp add: attr_def get_field_def stadium_row_def Point_def)
  moreover have "attr (pitch_row j i data) ''stadium'' = Ref (pk (stadium_row i data))"
    by (simp add: attr_def get_field_def stadium_row_def pitch_row_def)
  moreover have "attr (pitch_row j i data) ''area'' = Poly ?ring"
    by (simp add: attr_def get_field_def pitch_row_def polygon_box)
  moreover have "length ?ring = 5" and "hd ?ring = last ?ring"
    by (simp_all add: box_shape)
  moreover have "axis_aligned_rectangle (east data - west data) (north data - south data)
      (value lon, value lat) (corners ?ring)"
    using box_axis_aligned [OF we sn] cx cy by simp
  ultimately show ?thesis
    using run s p w h by blast
qed

lemma melbourne: "stadiums_data ! 1 \<in> set stadiums_data"
  "coords (stadiums_data ! 1) = (fneg (dbl 378199 4), dbl 1449834 4)"
  "name (stadiums_data ! 1) = ''Melbourne Cricket Ground''"
  by (simp_all add: stadiums_data_def)

theorem seeded_rectangle_witness:
  "at_most_one stadiums_data one_oval \<and> stadiums_data ! 1 \<in> set stadiums_data \<and>
   stadiums_named one_oval (name (stadiums_data ! 1)) = [] \<and>
   coords (stadiums_data ! 1) = (fneg (dbl 378199 4), dbl 1449834 4) \<and>
   (\<exists>d' out s p ring w h.
      handle one_oval = Inr (d', out) \<and>
      s \<in> set (d' ''Stadium'') \<and> p \<in> set (d' ''Pitch'') \<and>
      attr s ''name'' = Str (name (stadiums_data ! 1)) \<and>
      attr s ''location'' = Pt (value (dbl 1449834 4)) (value (fneg (dbl 378199 4))) \<and>
      attr p ''stadium'' = Ref (pk s) \<and>
      attr p ''area'' = Poly ring \<and>
      length ring = 5 \<and> hd ring = last ring \<and>
      axis_aligned_rectangle w h (value (dbl 1449834 4), value (fneg (dbl 378199 4))) (corners ring) \<and>
      \<bar>w - 6 / 10 ^ 4\<bar> < 1 / 10 ^ 13 \<and> \<bar>h - 6 / 10 ^ 4\<bar> < 1 / 10 ^ 13)"
proof -
  have none: "stadiums_named one_oval (name (stadiums_data ! 1)) = []"
    unfolding melbourne(3)
    by (simp add: stadiums_named_def one_oval_def empty_db_def get_field_def)
  from seeded_rectangle [OF at_most_one_one_oval melbourne(1) none melbourne(2)]
    at_most_one_one_oval melbourne(1) none melbourne(2)
  show ?thesis by blast
qed

lemma square_first_corner:
  assumes "axis_aligned_square side (cx, cy) [a, b, c, d]"
  shows "fst a = cx - side / 2 \<or> fst a = cx + side / 2"
proof -
  have "a \<in> set [a, b, c, d]" by simp
  with assms have "a \<in> {(cx - side / 2, cy - side / 2), (cx - side / 2, cy + side / 2),
                        (cx + side / 2, cy + side / 2), (cx + side / 2, cy - side / 2)}"
    by (simp del: set_simps)
  then show ?thesis by auto
qed

lemma the_oval: "stadiums_data ! 3 \<in> set stadiums_data"
  "name (stadiums_data ! 3) = ''The Oval''"
  by (simp_all add: stadiums_data_def)

lemma stadiums_named_one_oval: "stadiums_named one_oval ''The Oval'' = one_oval ''Stadium''"
  by (simp add: stadiums_named_def one_oval_def empty_db_def get_field_def)

theorem seeded_rectangle_counterexample:
  "handle one_oval = Inr (seeded stadiums_data one_oval, map (message one_oval) stadiums_data) \<and>
   stadiums_named (seeded stadiums_data one_oval) ''The Oval'' = one_oval ''Stadium'' \<and>
   map pk (one_oval ''Stadium'') = [7] \<and>
   attr (hd (one_oval ''Stadium'')) ''location'' = Null \<and>
   coords (stadiums_data ! 1) = (fneg (dbl 378199 4), dbl 1449834 4) \<and>
   polygon (fneg (dbl 378199 4)) (dbl 1449834 4) =
     Poly (box (2550569668496169 / 2 ^ 44) (637645055951949 / 2 ^ 42)
               (- 332669997318511 / 2 ^ 43) (- 2661317757301581 / 2 ^ 46)) \<and>
   value (dbl 1449834 4) = 5101149892303965 / 2 ^ 45 \<and>
   \<not> axis_aligned_square (6 / 10 ^ 4) (value (dbl 1449834 4), value (fneg (dbl 378199 4)))
       (corners (box (2550569668496169 / 2 ^ 44) (637645055951949 / 2 ^ 42)
                     (- 332669997318511 / 2 ^ 43) (- 2661317757301581 / 2 ^ 46)))"
proof -
  have run: "handle one_oval =
      Inr (seeded stadiums_data one_oval, map (message one_oval) stadiums_data)"
    using seed_loop_ok [OF distinct_names at_most_one_one_oval, of "[]"]
    by (simp add: handle_def)
  have ne: "stadiums_named one_oval ''The Oval'' \<noteq> []"
    unfolding stadiums_named_one_oval by (simp add: one_oval_def)
  have "stadiums_named (seeded stadiums_data one_oval) ''The Oval'' =
          stadiums_named one_oval ''The Oval''"
    using seeded_name [OF distinct_names the_oval(1), of one_oval] ne
    unfolding the_oval(2) by simp
  then have kept: "stadiums_named (seeded stadiums_data one_oval) ''The Oval'' = one_oval ''Stadium''"
    by (simp add: stadiums_named_one_oval)
  have row: "map pk (one_oval ''Stadium'') = [7]"
    "attr (hd (one_oval ''Stadium'')) ''location'' = Null"
    by (simp_all add: one_oval_def attr_def get_field_def)
  have lon: "value (dbl 1449834 4) = 5101149892303965 / 2 ^ 45"
    by (simp add: dbl_eval)
  have ring: "polygon (fneg (dbl 378199 4)) (dbl 1449834 4) =
     Poly (box (2550569668496169 / 2 ^ 44) (637645055951949 / 2 ^ 42)
               (- 332669997318511 / 2 ^ 43) (- 2661317757301581 / 2 ^ 46))"
    by (simp add: polygon_def box_def delta_value dbl_eval)
  have "\<not> axis_aligned_square (6 / 10 ^ 4) (5101149892303965 / 2 ^ 45, value (fneg (dbl 378199 4)))
       [(2550569668496169 / 2 ^ 44, - 332669997318511 / 2 ^ 43),
        (2550569668496169 / 2 ^ 44, - 2661317757301581 / 2 ^ 46),
        (637645055951949 / 2 ^ 42, - 2661317757301581 / 2 ^ 46),
        (637645055951949 / 2 ^ 42, - 332669997318511 / 2 ^ 43)]"
  proof
    assume "axis_aligned_square (6 / 10 ^ 4) (5101149892303965 / 2 ^ 45, value (fneg (dbl 378199 4)))
       [(2550569668496169 / 2 ^ 44, - 332669997318511 / 2 ^ 43),
        (2550569668496169 / 2 ^ 44, - 2661317757301581 / 2 ^ 46),
        (637645055951949 / 2 ^ 42, - 2661317757301581 / 2 ^ 46),
        (637645055951949 / 2 ^ 42, - 332669997318511 / 2 ^ 43)]"
    from square_first_corner [OF this] show False by simp
  qed
  then have "\<not> axis_aligned_square (6 / 10 ^ 4) (value (dbl 1449834 4), value (fneg (dbl 378199 4)))
       (corners (box (2550569668496169 / 2 ^ 44) (637645055951949 / 2 ^ 42)
                     (- 332669997318511 / 2 ^ 43) (- 2661317757301581 / 2 ^ 46)))"
    unfolding lon box_shape(4) .
  with run kept row lon ring melbourne(2) show ?thesis by simp
qed

section \<open>The models that the command and the admin import\<close>

lemma final_db_step:
  "final_db (seed_loop (v # vs) (d, out)) =
     (case stadiums_named d (name v) of
        [] \<Rightarrow> final_db (seed_loop vs (created d v, out @ [message d v]))
      | [r] \<Rightarrow> final_db (seed_loop vs (d, out @ [message d v]))
      | r # r' # rs \<Rightarrow> d)"
  by (simp add: seed_venue_created seed_venue_exists seed_venue_multiple message_def final_db_def
      split: list.splits)

lemma run_appends_stadium_rows:
  "\<exists>news. final_db (seed_loop vs (d, out)) ''Stadium'' = d ''Stadium'' @ news \<and>
          list_all (\<lambda>s. map fst (vals s) = [''name'', ''city'', ''country'', ''location'']) news"
proof (induction vs arbitrary: d out)
  case Nil
  then show ?case by (simp add: final_db_def)
next
  case (Cons v vs)
  show ?case
  proof (cases "stadiums_named d (name v)")
    case Nil
    then have step: "final_db (seed_loop (v # vs) (d, out)) =
        final_db (seed_loop vs (created d v, out @ [message d v]))"
      by (subst final_db_step) simp
    from Cons [of "created d v" "out @ [message d v]"] obtain news where
      "final_db (seed_loop vs (created d v, out @ [message d v])) ''Stadium'' =
         created d v ''Stadium'' @ news"
      "list_all (\<lambda>s. map fst (vals s) = [''name'', ''city'', ''country'', ''location'']) news"
      by blast
    then have "final_db (seed_loop (v # vs) (d, out)) ''Stadium'' =
        d ''Stadium'' @ (stadium_row (next_pk (d ''Stadium'')) v # news) \<and>
        list_all (\<lambda>s. map fst (vals s) = [''name'', ''city'', ''country'', ''location''])
          (stadium_row (next_pk (d ''Stadium'')) v # news)"
      unfolding step by (simp add: created_tables stadium_row_def)
    then show ?thesis by blast
  next
    case (Cons r rs)
    show ?thesis
    proof (cases rs)
      case Nil
      with Cons have step: "final_db (seed_loop (v # vs) (d, out)) =
          final_db (seed_loop vs (d, out @ [message d v]))"
        by (subst final_db_step) simp
      show ?thesis
        unfolding step by (rule Cons.IH)
    next
      case (Cons r' rs')
      with \<open>stadiums_named d (name v) = r # rs\<close>
      have "final_db (seed_loop (v # vs) (d, out)) = d"
        by (subst final_db_step) simp
      then show ?thesis by simp
    qed
  qed
qed

lemma no_slug:
  assumes "map fst (vals s) = [''name'', ''city'', ''country'', ''location'']"
  shows "get_field s ''slug'' = None"
proof -
  have "fst ` set (vals s) = set (map fst (vals s))" by simp
  also have "\<dots> = set [''name'', ''city'', ''country'', ''location'']"
    by (simp only: assms)
  finally have "''slug'' \<notin> fst ` set (vals s)" by simp
  then show ?thesis
    by (simp add: get_field_def map_of_eq_None_iff)
qed

text \<open>
  Claim C5. With the files as they are, \<^verbatim>\<open>geo.models\<close> is the module file
  \<^verbatim>\<open>geo/models.py\<close>. Its Stadium has exactly the fields name, city, country and location,
  its Pitch exactly stadium, name, area, centroid, surface_type and current_condition;
  no field of either is unique and neither has a \<^verbatim>\<open>unique_together\<close>. The keywords with
  which the command creates a Pitch are not all fields of the Pitch of \<^verbatim>\<open>cric.py\<close>.
  Whatever the database before the run, every Stadium row that the run adds has exactly
  those four fields, and so no slug.
\<close>

theorem imported_models:
  "find_spec geo ''models'' = SourceFile ''models.py'' \<and>
   map fname (mfields Stadium) = [''name'', ''city'', ''country'', ''location''] \<and>
   map fname (mfields Pitch) =
     [''stadium'', ''name'', ''area'', ''centroid'', ''surface_type'', ''current_condition''] \<and>
   list_all (\<lambda>f. \<not> f_unique f) (mfields Stadium @ mfields Pitch) \<and>
   unique_together Stadium = [] \<and> unique_together Pitch = [] \<and>
   init_vals cric_Pitch (pitch_kwargs stadium area) = Inl TypeError \<and>
   (\<exists>news. final_db (handle d) ''Stadium'' = d ''Stadium'' @ news \<and>
      list_all (\<lambda>s. map fst (vals s) = [''name'', ''city'', ''country'', ''location''] \<and>
                     get_field s ''slug'' = None) news)"
proof -
  have "find_spec geo ''models'' = SourceFile ''models.py''"
    by (simp add: find_spec_def geo_def has_file_def)
  moreover have "map fname (mfields Stadium) = [''name'', ''city'', ''country'', ''location'']"
    "map fname (mfields Pitch) =
       [''stadium'', ''name'', ''area'', ''centroid'', ''surface_type'', ''current_condition'']"
    "list_all (\<lambda>f. \<not> f_unique f) (mfields Stadium @ mfields Pitch)"
    "unique_together Stadium = []" "unique_together Pitch = []"
    by (simp_all add: Stadium_def Pitch_def fld_def nullable_def with_default_def)
  moreover have "init_vals cric_Pitch (pitch_kwargs stadium area) = Inl TypeError"
    by (simp add: init_vals_def pitch_kwargs_def cric_Pitch_def TimeStampedModel_def fld_def
        nullable_def with_default_def)
  moreover from run_appends_stadium_rows [of stadiums_data d "[]"] obtain news where
    n: "final_db (handle d) ''Stadium'' = d ''Stadium'' @ news"
       "list_all (\<lambda>s. map fst (vals s) = [''name'', ''city'', ''country'', ''location'']) news"
    unfolding handle_def by blast
  from n(2) have "list_all (\<lambda>s. map fst (vals s) = [''name'', ''city'', ''country'', ''location''] \<and>
                     get_field s ''slug'' = None) news"
    by (simp add: list_all_iff no_slug)
  with n(1) have "\<exists>news. final_db (handle d) ''Stadium'' = d ''Stadium'' @ news \<and>
      list_all (\<lambda>s. map fst (vals s) = [''name'', ''city'', ''country'', ''location''] \<and>
                     get_field s ''slug'' = None) news"
    by blast
  ultimately show ?thesis by blast
qed

section \<open>Uniqueness constraints of \<^verbatim>\<open>cric.py\<close>\<close>

lemma insert_into_unique:
  assumes "violates_unique m (d (mname m)) \<lparr>pk = next_pk (d (mname m)), vals = vs\<rparr>"
  shows "insert_into d m vs = (Some IntegrityError, d)"
  using assms by (simp add: insert_into_def insert_row_def Let_def)

lemma insert_into_unique_together:
  assumes "violates_unique_together m (d (mname m)) \<lparr>pk = next_pk (d (mname m)), vals = vs\<rparr>"
  shows "insert_into d m vs = (Some IntegrityError, d)"
  using assms by (simp add: insert_into_def insert_row_def Let_def)

lemma slug_unique:
  assumes "r \<in> set rows" and "attr r ''slug'' = v" and "v \<noteq> Null"
    and "map_of vs ''slug'' = Some v"
  shows "violates_unique cric_Stadium rows \<lparr>pk = i, vals = vs\<rparr>"
  using assms
  by (auto simp: violates_unique_def cric_Stadium_def GeoModel_def TimeStampedModel_def
      fld_def uniq_def nullable_def attr_def get_field_def list_ex_iff)

lemma pair_unique:
  assumes "unique_together m = [[f, g]]"
    and "r \<in> set rows" and "attr r f = v" and "attr r g = w" and "v \<noteq> Null" and "w \<noteq> Null"
    and "map_of vs f = Some v" and "map_of vs g = Some w"
  shows "violates_unique_together m rows \<lparr>pk = i, vals = vs\<rparr>"
  using assms
  by (auto simp: violates_unique_together_def attr_def get_field_def list_ex_iff)

lemma cric_unique_together:
  "unique_together StadiumFeature = [[''stadium'', ''key'']]"
  "unique_together Over = [[''inning'', ''number'']]"
  "unique_together PitchMetric = [[''pitch'', ''date'']]"
  "mname cric_Stadium = ''Stadium''" "mname StadiumFeature = ''StadiumFeature''"
  "mname Over = ''Over''" "mname PitchMetric = ''PitchMetric''"
  by (simp_all add: StadiumFeature_def Over_def PitchMetric_def cric_Stadium_def)

text \<open>
  Claim C6. An INSERT of a Stadium whose slug is the slug of a stored Stadium, of a
  StadiumFeature whose stadium and key are those of a stored StadiumFeature, of an Over
  whose inning and number are those of a stored Over, or of a PitchMetric whose pitch and
  date are those of a stored PitchMetric violates the uniqueness constraint of its model,
  is rejected with IntegrityError, and leaves the database as it was.
\<close>

theorem unique_rejects:
  "(r \<in> set (d ''Stadium'') \<and> attr r ''slug'' = v \<and> v \<noteq> Null \<and> map_of vs ''slug'' = Some v \<longrightarrow>
      violates_unique cric_Stadium (d ''Stadium'') \<lparr>pk = next_pk (d ''Stadium''), vals = vs\<rparr> \<and>
      insert_into d cric_Stadium vs = (Some IntegrityError, d)) \<and>
   (r \<in> set (d ''StadiumFeature'') \<and> attr r ''stadium'' = v \<and> attr r ''key'' = w \<and>
    v \<noteq> Null \<and> w \<noteq> Null \<and> map_of vs ''stadium'' = Some v \<and> map_of vs ''key'' = Some w \<longrightarrow>
      violates_unique_together StadiumFeature (d ''StadiumFeature'')
        \<lparr>pk = next_pk (d ''StadiumFeature''), vals = vs\<rparr> \<and>
      insert_into d StadiumFeature vs = (Some IntegrityError, d)) \<and>
   (r \<in> set (d ''Over'') \<and> attr r ''inning'' = v \<and> attr r ''number'' = w \<and>
    v \<noteq> Null \<and> w \<noteq> Null \<and> map_of vs ''inning'' = Some v \<and> map_of vs ''number'' = Some w \<longrightarrow>
      violates_unique_together Over (d ''Over'') \<lparr>pk = next_pk (d ''Over''), vals = vs\<rparr> \<and>
      insert_into d Over vs = (Some IntegrityError, d)) \<and>
   (r \<in> set (d ''PitchMetric'') \<and> attr r ''pitch'' = v \<and> attr r ''date'' = w \<and>
    v \<noteq> Null \<and> w \<noteq> Null \<and> map_of vs ''pitch'' = Some v \<and> map_of vs ''date'' = Some w \<longrightarrow>
      violates_unique_together PitchMetric (d ''PitchMetric'')
        \<lparr>pk = next_pk (d ''PitchMetric''), vals = vs\<rparr> \<and>
      insert_into d PitchMetric vs = (Some IntegrityError, d))"
proof (intro conjI impI)
  assume a: "r \<in> set (d ''Stadium'') \<and> attr r ''slug'' = v \<and> v \<noteq> Null \<and> map_of vs ''slug'' = Some v"
  then show u: "violates_unique cric_Stadium (d ''Stadium'') \<lparr>pk = next_pk (d ''Stadium''), vals = vs\<rparr>"
    by (blast intro: slug_unique)
  show "insert_into d cric_Stadium vs = (Some IntegrityError, d)"
    using insert_into_unique [of cric_Stadium d vs] u by (simp add: cric_unique_together)
next
  assume a: "r \<in> set (d ''StadiumFeature'') \<and> attr r ''stadium'' = v \<and> attr r ''key'' = w \<and>
    v \<noteq> Null \<and> w \<noteq> Null \<and> map_of vs ''stadium'' = Some v \<and> map_of vs ''key'' = Some w"
  then show u: "violates_unique_together StadiumFeature (d ''StadiumFeature'')
        \<lparr>pk = next_pk (d ''StadiumFeature''), vals = vs\<rparr>"
    by (blast intro: pair_unique [OF cric_unique_together(1)])
  show "insert_into d StadiumFeature vs = (Some IntegrityError, d)"
    using insert_into_unique_together [of StadiumFeature d vs] u by (simp add: cric_unique_together)
next
  assume a: "r \<in> set (d ''Over'') \<and> attr r ''inning'' = v \<and> attr r ''number'' = w \<and>
    v \<noteq> Null \<and> w \<noteq> Null \<and> map_of vs ''inning'' = Some v \<and> map_of vs ''number'' = Some w"
  then show u: "violates_unique_together Over (d ''Over'') \<lparr>pk = next_pk (d ''Over''), vals = vs\<rparr>"
    by (blast intro: pair_unique [OF cric_unique_together(2)])
  show "insert_into d Over vs = (Some IntegrityError, d)"
    using insert_into_unique_together [of Over d vs] u by (simp add: cric_unique_together)
next
  assume a: "r \<in> set (d ''PitchMetric'') \<and> attr r ''pitch'' = v \<and> attr r ''date'' = w \<and>
    v \<noteq> Null \<and> w \<noteq> Null \<and> map_of vs ''pitch'' = Some v \<and> map_of vs ''date'' = Some w"
  then show u: "violates_unique_together PitchMetric (d ''PitchMetric'')
        \<lparr>pk = next_pk (d ''PitchMetric''), vals = vs\<rparr>"
    by (blast intro: pair_unique [OF cric_unique_together(3)])
  show "insert_into d PitchMetric vs = (Some IntegrityError, d)"
    using insert_into_unique_together [of PitchMetric d vs] u by (simp add: cric_unique_together)
qed

lemma cric_db_tables:
  "cric_db ''Stadium'' = [\<lparr>pk = 1, vals = [(''name'', Str ''Eden Park''), (''slug'', Str ''eden-park'')]\<rparr>]"
  "cric_db ''StadiumFeature'' = [\<lparr>pk = 1, vals = [(''stadium'', Ref 1), (''key'', Str ''soil''),
                                               (''value'', Str ''clay'')]\<rparr>]"
  "cric_db ''Over'' = [\<lparr>pk = 1, vals = [(''inning'', Ref 1), (''number'', Num 1)]\<rparr>]"
  "cric_db ''PitchMetric'' = [\<lparr>pk = 1, vals = [(''pitch'', Ref 1), (''date'', Date 2024 3 9)]\<rparr>]"
  by (simp_all add: cric_db_def)

theorem unique_rejects_witness:
  "(hd (cric_db ''Stadium'') \<in> set (cric_db ''Stadium'') \<and>
    attr (hd (cric_db ''Stadium'')) ''slug'' = Str ''eden-park'' \<and> Str ''eden-park'' \<noteq> Null \<and>
    insert_into cric_db cric_Stadium [(''name'', Str ''Eden Gardens''), (''slug'', Str ''eden-park'')]
      = (Some IntegrityError, cric_db)) \<and>
   (hd (cric_db ''StadiumFeature'') \<in> set (cric_db ''StadiumFeature'') \<and>
    attr (hd (cric_db ''StadiumFeature'')) ''stadium'' = Ref 1 \<and>
    attr (hd (cric_db ''StadiumFeature'')) ''key'' = Str ''soil'' \<and>
    insert_into cric_db StadiumFeature
      [(''stadium'', Ref 1), (''key'', Str ''soil''), (''value'', Str ''sand'')]
      = (Some IntegrityError, cric_db)) \<and>
   (hd (cric_db ''Over'') \<in> set (cric_db ''Over'') \<and>
    attr (hd (cric_db ''Over'')) ''inning'' = Ref 1 \<and>
    attr (hd (cric_db ''Over'')) ''number'' = Num 1 \<and>
    insert_into cric_db Over [(''inning'', Ref 1), (''number'', Num 1)]
      = (Some IntegrityError, cric_db)) \<and>
   (hd (cric_db ''PitchMetric'') \<in> set (cric_db ''PitchMetric'') \<and>
    attr (hd (cric_db ''PitchMetric'')) ''pitch'' = Ref 1 \<and>
    attr (hd (cric_db ''PitchMetric'')) ''date'' = Date 2024 3 9 \<and>
    insert_into cric_db PitchMetric [(''pitch'', Ref 1), (''date'', Date 2024 3 9)]
      = (Some IntegrityError, cric_db))"
proof -
  have 1: "hd (cric_db ''Stadium'') \<in> set (cric_db ''Stadium'') \<and>
    attr (hd (cric_db ''Stadium'')) ''slug'' = Str ''eden-park'' \<and> Str ''eden-park'' \<noteq> Null \<and>
    map_of [(''name'', Str ''Eden Gardens''), (''slug'', Str ''eden-park'')] ''slug''
      = Some (Str ''eden-park'')"
    by (simp add: cric_db_tables attr_def get_field_def)
  have 2: "hd (cric_db ''StadiumFeature'') \<in> set (cric_db ''StadiumFeature'') \<and>
    attr (hd (cric_db ''StadiumFeature'')) ''stadium'' = Ref 1 \<and>
    attr (hd (cric_db ''StadiumFeature'')) ''key'' = Str ''soil'' \<and>
    Ref 1 \<noteq> Null \<and> Str ''soil'' \<noteq> Null \<and>
    map_of [(''stadium'', Ref 1), (''key'', Str ''soil''), (''value'', Str ''sand'')] ''stadium''
      = Some (Ref 1) \<and>
    map_of [(''stadium'', Ref 1), (''key'', Str ''soil''), (''value'', Str ''sand'')] ''key''
      = Some (Str ''soil'')"
    by (simp add: cric_db_tables attr_def get_field_def)
  have 3: "hd (cric_db ''Over'') \<in> set (cric_db ''Over'') \<and>
    attr (hd (cric_db ''Over'')) ''inning'' = Ref 1 \<and>
    attr (hd (cric_db ''Over'')) ''number'' = Num 1 \<and>
    Ref 1 \<noteq> Null \<and> Num 1 \<noteq> Null \<and>
    map_of [(''inning'', Ref 1), (''number'', Num 1)] ''inning'' = Some (Ref 1) \<and>
    map_of [(''inning'', Ref 1), (''number'', Num 1)] ''number'' = Some (Num 1)"
    by (simp add: cric_db_tables attr_def get_field_def)
  have 4: "hd (cric_db ''PitchMetric'') \<in> set (cric_db ''PitchMetric'') \<and>
    attr (hd (cric_db ''PitchMetric'')) ''pitch'' = Ref 1 \<and>
    attr (hd (cric_db ''PitchMetric'')) ''date'' = Date 2024 3 9 \<and>
    Ref 1 \<noteq> Null \<and> Date 2024 3 9 \<noteq> Null \<and>
    map_of [(''pitch'', Ref 1), (''date'', Date 2024 3 9)] ''pitch'' = Some (Ref 1) \<and>
    map_of [(''pitch'', Ref 1), (''date'', Date 2024 3 9)] ''date'' = Some (Date 2024 3 9)"
    by (simp add: cric_db_tables attr_def get_field_def)
  from 1 unique_rejects [where r = "hd (cric_db ''Stadium'')" and d = cric_db
      and v = "Str ''eden-park''"
      and vs = "[(''name'', Str ''Eden Gardens''), (''slug'', Str ''eden-park'')]"]
  have a: "insert_into cric_db cric_Stadium
      [(''name'', Str ''Eden Gardens''), (''slug'', Str ''eden-park'')]
      = (Some IntegrityError, cric_db)"
    by blast
  from 2 unique_rejects [where r = "hd (cric_db ''StadiumFeature'')" and d = cric_db
      and v = "Ref 1" and w = "Str ''soil''"
      and vs = "[(''stadium'', Ref 1), (''key'', Str ''soil''), (''value'', Str ''sand'')]"]
  have b: "insert_into cric_db StadiumFeature
      [(''stadium'', Ref 1), (''key'', Str ''soil''), (''value'', Str ''sand'')]
      = (Some IntegrityError, cric_db)"
    by blast
  from 3 unique_rejects [where r = "hd (cric_db ''Over'')" and d = cric_db
      and v = "Ref 1" and w = "Num 1" and vs = "[(''inning'', Ref 1), (''number'', Num 1)]"]
  have c: "insert_into cric_db Over [(''inning'', Ref 1), (''number'', Num 1)]
      = (Some IntegrityError, cric_db)"
    by blast
  from 4 unique_rejects [where r = "hd (cric_db ''PitchMetric'')" and d = cric_db
      and v = "Ref 1" and w = "Date 2024 3 9"
      and vs = "[(''pitch'', Ref 1), (''date'', Date 2024 3 9)]"]
  have e: "insert_into cric_db PitchMetric [(''pitch'', Ref 1), (''date'', Date 2024 3 9)]
      = (Some IntegrityError, cric_db)"
    by blast
  from 1 2 3 4 a b c e show ?thesis by blast
qed

section \<open>Deletion under the declarations of \<^verbatim>\<open>cric.py\<close>\<close>

lemma collect_roots: "set roots \<subseteq> set (collect k schema d roots)"
  by (cases k) auto

lemma points_at_mono:
  assumes "set objs \<subseteq> set objs'" and "points_at od objs f v"
  shows "points_at od objs' f v"
  using assms by (auto simp: points_at_def split: column.splits val.splits)

lemma refers_to_mono:
  assumes "set objs \<subseteq> set objs'" and "refers_to m r od objs"
  shows "refers_to m r od objs'"
  using assms by (auto simp: refers_to_def list_ex_iff intro: points_at_mono)

lemma cascaded_mem:
  assumes "m \<in> set schema" and "r \<in> set (d (mname m))" and "refers_to m r CASCADE objs"
  shows "(mname m, pk r) \<in> set (cascaded schema d objs)"
  using assms by (auto simp: cascaded_def)

lemma rows_total_pos:
  assumes "m \<in> set schema" and "r \<in> set (d (mname m))"
  shows "0 < rows_total schema d"
proof -
  from assms(2) have "0 < length (d (mname m))"
    by (rule length_pos_if_in_set)
  also have "length (d (mname m)) \<le> rows_total schema d"
    unfolding rows_total_def using assms(1)
    by (simp add: member_le_sum_list)
  finally show ?thesis .
qed

lemma child_collected:
  assumes "m \<in> set schema" and "r \<in> set (d (mname m))" and "refers_to m r CASCADE roots"
  shows "(mname m, pk r) \<in> set (collect (rows_total schema d) schema d roots)"
proof -
  from assms(1,2) have "0 < rows_total schema d" by (rule rows_total_pos)
  then obtain k where k: "rows_total schema d = Suc k"
    by (cases "rows_total schema d") auto
  have "refers_to m r CASCADE (collect k schema d roots)"
    using collect_roots assms(3) by (rule refers_to_mono)
  with assms(1,2) have "(mname m, pk r) \<in> set (cascaded schema d (collect k schema d roots))"
    by (rule cascaded_mem)
  then show ?thesis
    unfolding k by simp
qed

lemma pk_set_null_row [simp]: "pk (set_null_row m objs r) = pk r"
  by (simp add: set_null_row_def)

lemma removed:
  assumes "(M, pk r) \<in> set objs"
  shows "pk r \<notin> pk ` set (map (set_null_row m objs) (survivors objs M rows))"
  using assms by (auto simp: survivors_def)

lemma kept_pks:
  "set (map pk (map (set_null_row m objs) (survivors objs M rows))) \<subseteq> set (map pk rows)"
  by (auto simp: survivors_def)

lemma map_of_map_key:
  "map_of (map (\<lambda>(k, v). (k, g k v)) xs) k = map_option (g k) (map_of xs k)"
  by (induction xs) auto

lemma attr_set_null_row:
  "attr (set_null_row m objs r) k =
     (case get_field r k of None \<Rightarrow> Null | Some v \<Rightarrow> if nulled m objs k v then Null else v)"
  by (simp add: attr_def get_field_def set_null_row_def map_of_map_key split: option.splits)

lemma delete_table:
  assumes "delete_objs schema d objs = Inr d'" and "find_model schema M = Some m"
  shows "d' M = map (set_null_row m objs) (survivors objs M (d M))"
  using assms by (auto simp: delete_objs_def split: if_splits)

lemma points_at_column:
  assumes "points_at od objs f v"
  shows "\<exists>T. column f = ForeignKey T od"
  using assms by (cases "column f") (simp_all add: points_at_def)

lemma not_blocked:
  assumes "set_null_nullable schema"
  shows "\<not> blocked schema d objs"
proof
  assume "blocked schema d objs"
  then obtain m r f where m: "m \<in> set schema" and f: "f \<in> set (mfields m)"
    and nn: "\<not> f_null f" and p: "points_at SET_NULL objs f (attr r (fname f))"
    by (auto simp: blocked_def list_ex_iff)
  from points_at_column [OF p] obtain T where c: "column f = ForeignKey T SET_NULL" by blast
  from assms m f have "case column f of ForeignKey T SET_NULL \<Rightarrow> f_null f | _ \<Rightarrow> True"
    by (simp add: set_null_nullable_def list_all_iff)
  with c nn show False by simp
qed

lemma delete_succeeds:
  assumes "set_null_nullable schema"
  shows "delete schema d roots =
     Inr (\<lambda>M. case find_model schema M of
                 None \<Rightarrow> d M
               | Some m \<Rightarrow> map (set_null_row m (collect (rows_total schema d) schema d roots))
                             (survivors (collect (rows_total schema d) schema d roots) M (d M)))"
  using not_blocked [OF assms] by (simp add: delete_def delete_objs_def)

lemma refers_to_has_cascade:
  assumes "refers_to m r CASCADE objs"
  shows "has_cascade m"
proof -
  from assms obtain f where f: "f \<in> set (mfields m)"
    and p: "points_at CASCADE objs f (attr r (fname f))"
    by (auto simp: refers_to_def list_ex_iff)
  from points_at_column [OF p] obtain T where "column f = ForeignKey T CASCADE" by blast
  then have "case column f of ForeignKey T CASCADE \<Rightarrow> True | _ \<Rightarrow> False"
    by simp
  with f show ?thesis
    unfolding has_cascade_def list_ex_iff by (rule bexI [rotated])
qed

lemma collected_origin:
  assumes "(M, j) \<in> set (collect k schema d roots)"
  shows "(M, j) \<in> set roots \<or> (\<exists>m \<in> set schema. mname m = M \<and> has_cascade m)"
proof (cases k)
  case 0
  with assms show ?thesis by simp
next
  case (Suc k')
  with assms show ?thesis
    by (auto simp: cascaded_def dest: refers_to_has_cascade)
qed

lemma root_removed:
  assumes "(M, i) \<in> set objs"
  shows "i \<notin> pk ` set (map (set_null_row m objs) (survivors objs M rows))"
  using assms by (auto simp: survivors_def)

lemma set_null_list:
  assumes tbl: "d' M = map (set_null_row m objs) (survivors objs M (d M))"
    and none: "\<And>j. (M, j) \<notin> set objs"
    and nul: "nulled m objs k (Ref i)"
    and only: "\<And>k' v. nulled m objs k' v \<Longrightarrow> k' \<in> K"
  shows "list_all2 (\<lambda>s s'. pk s' = pk s \<and> (attr s k = Ref i \<longrightarrow> attr s' k = Null) \<and>
                           (\<forall>k'. k' \<notin> K \<longrightarrow> attr s' k' = attr s k')) (d M) (d' M)"
proof -
  have all: "survivors objs M (d M) = d M"
    using none by (simp add: survivors_def)
  have 1: "attr (set_null_row m objs s) k = Null" if "attr s k = Ref i" for s
  proof -
    from that have "get_field s k = Some (Ref i)"
      by (simp add: attr_def split: option.splits)
    with nul show ?thesis by (simp add: attr_set_null_row)
  qed
  have 2: "attr (set_null_row m objs s) k' = attr s k'" if "k' \<notin> K" for s k'
  proof -
    from that only have "\<not> nulled m objs k' v" for v by blast
    then show ?thesis
      unfolding attr_set_null_row by (simp add: attr_def split: option.splits)
  qed
  from 1 2 show ?thesis
    unfolding tbl all by (simp add: list_all2_map2 list_all2_same)
qed

lemma child_removed:
  assumes "m \<in> set schema" and "r \<in> set (d (mname m))" and "refers_to m r CASCADE roots"
  shows "pk r \<notin> pk ` set (map (set_null_row m' (collect (rows_total schema d) schema d roots))
                            (survivors (collect (rows_total schema d) schema d roots)
                               (mname m) (d (mname m))))"
proof -
  from assms have "(mname m, pk r) \<in> set (collect (rows_total schema d) schema d roots)"
    by (rule child_collected)
  then show ?thesis by (rule removed)
qed

lemmas cric_defs = cric_py_def cric_Stadium_def StadiumFeature_def cric_Pitch_def
  PitchSnapshot_def SoilSample_def SensorDevice_def SensorReading_def BaseImage_def
  SatelliteImage_def CameraImage_def Team_def Player_def Match_def Inning_def Over_def
  Delivery_def PlayerTrackPoint_def PitchMetric_def PitchAnalysis_def IngestionEvent_def
  TimeStampedModel_def GeoModel_def PayloadModel_def SourceTrackedModel_def
  fld_def nullable_def uniq_def with_default_def

lemma cric_nullable: "set_null_nullable cric_py"
  by (simp add: set_null_nullable_def cric_defs)

lemma cric_find:
  "find_model cric_py ''Stadium'' = Some cric_Stadium"
  "find_model cric_py ''Pitch'' = Some cric_Pitch"
  "find_model cric_py ''Match'' = Some Match"
  "find_model cric_py ''PitchSnapshot'' = Some PitchSnapshot"
  "find_model cric_py ''SoilSample'' = Some SoilSample"
  "find_model cric_py ''SatelliteImage'' = Some SatelliteImage"
  "find_model cric_py ''CameraImage'' = Some CameraImage"
  "find_model cric_py ''PitchMetric'' = Some PitchMetric"
  "find_model cric_py ''SensorDevice'' = Some SensorDevice"
  "find_model cric_py ''SensorReading'' = Some SensorReading"
  by (simp_all add: find_model_def cric_py_def cric_Stadium_def StadiumFeature_def
      cric_Pitch_def PitchSnapshot_def SoilSample_def SensorDevice_def SensorReading_def
      SatelliteImage_def CameraImage_def Team_def Player_def Match_def Inning_def Over_def
      Delivery_def PlayerTrackPoint_def PitchMetric_def)

lemma cric_names:
  "mname cric_Pitch = ''Pitch''" "mname PitchSnapshot = ''PitchSnapshot''"
  "mname SoilSample = ''SoilSample''" "mname SatelliteImage = ''SatelliteImage''"
  "mname CameraImage = ''CameraImage''" "mname PitchMetric = ''PitchMetric''"
  "mname SensorReading = ''SensorReading''"
  by (simp_all add: cric_Pitch_def PitchSnapshot_def SoilSample_def SatelliteImage_def
      CameraImage_def PitchMetric_def SensorReading_def)

lemma cric_members:
  "cric_Pitch \<in> set cric_py" "PitchSnapshot \<in> set cric_py" "SoilSample \<in> set cric_py"
  "SatelliteImage \<in> set cric_py" "CameraImage \<in> set cric_py" "PitchMetric \<in> set cric_py"
  "SensorReading \<in> set cric_py"
  by (simp_all add: cric_py_def)

lemma never_cascaded:
  "\<not> list_ex (\<lambda>m. mname m = ''Match'' \<and> has_cascade m) cric_py"
  "\<not> list_ex (\<lambda>m. mname m = ''SensorDevice'' \<and> has_cascade m) cric_py"
  by (simp_all add: has_cascade_def cric_defs)

lemma cric_refers:
  "attr r ''stadium'' = Ref i \<Longrightarrow> refers_to cric_Pitch r CASCADE [(''Stadium'', i)]"
  "attr r ''pitch'' = Ref i \<Longrightarrow> refers_to PitchSnapshot r CASCADE [(''Pitch'', i)]"
  "attr r ''pitch'' = Ref i \<Longrightarrow> refers_to SoilSample r CASCADE [(''Pitch'', i)]"
  "attr r ''pitch'' = Ref i \<Longrightarrow> refers_to SatelliteImage r CASCADE [(''Pitch'', i)]"
  "attr r ''pitch'' = Ref i \<Longrightarrow> refers_to CameraImage r CASCADE [(''Pitch'', i)]"
  "attr r ''pitch'' = Ref i \<Longrightarrow> refers_to PitchMetric r CASCADE [(''Pitch'', i)]"
  "attr r ''device'' = Ref i \<Longrightarrow> refers_to SensorReading r CASCADE [(''SensorDevice'', i)]"
  by (simp_all add: refers_to_def points_at_def cric_defs)

lemma cric_nulled:
  "(''Stadium'', i) \<in> set objs \<Longrightarrow> nulled Match objs ''stadium'' (Ref i)"
  "(''Pitch'', i) \<in> set objs \<Longrightarrow> nulled SensorDevice objs ''pitch'' (Ref i)"
  by (simp_all add: nulled_def points_at_def cric_defs)

lemma cric_nulled_only:
  "nulled Match objs k v \<Longrightarrow> k \<in> {''pitch'', ''stadium''}"
  "nulled SensorDevice objs k v \<Longrightarrow> k \<in> {''pitch''}"
  by (auto simp: nulled_def points_at_def cric_defs)

lemma not_collected:
  assumes "\<not> list_ex (\<lambda>m. mname m = M \<and> has_cascade m) schema" and "(M, j) \<notin> set roots"
  shows "(M, j) \<notin> set (collect k schema d roots)"
  using assms collected_origin [of M j k schema d roots] by (auto simp: list_ex_iff)

text \<open>Claim C7. Under the declarations of \<^verbatim>\<open>cric.py\<close>, deleting the Stadium \<open>i\<close> raises no
  error; afterwards no row of the Stadium table has the key \<open>i\<close>, every Pitch whose stadium
  was \<open>i\<close> is gone, and the Match table has the rows it had, in order and with the same
  keys: a Match whose stadium was \<open>i\<close> has the stadium Null, and every attribute of a
  Match other than its pitch and its stadium is what it was.\<close>

theorem stadium_delete:
  "\<exists>d'. delete cric_py d [(''Stadium'', i)] = Inr d' \<and>
        i \<notin> pk ` set (d' ''Stadium'') \<and>
        (\<forall>p \<in> set (d ''Pitch''). attr p ''stadium'' = Ref i \<longrightarrow> pk p \<notin> pk ` set (d' ''Pitch'')) \<and>
        list_all2 (\<lambda>m m'. pk m' = pk m \<and>
                           (attr m ''stadium'' = Ref i \<longrightarrow> attr m' ''stadium'' = Null) \<and>
                           (\<forall>k. k \<notin> {''pitch'', ''stadium''} \<longrightarrow> attr m' k = attr m k))
          (d ''Match'') (d' ''Match'')"
proof -
  define objs where "objs = collect (rows_total cric_py d) cric_py d [(''Stadium'', i)]"
  define d' where "d' = (\<lambda>M. case find_model cric_py M of
      None \<Rightarrow> d M | Some m \<Rightarrow> map (set_null_row m objs) (survivors objs M (d M)))"
  have ok: "delete cric_py d [(''Stadium'', i)] = Inr d'"
    unfolding d'_def objs_def using cric_nullable by (rule delete_succeeds)
  have root: "(''Stadium'', i) \<in> set objs"
    unfolding objs_def using collect_roots [of "[(''Stadium'', i)]"] by auto
  have s: "d' ''Stadium'' = map (set_null_row cric_Stadium objs) (survivors objs ''Stadium'' (d ''Stadium''))"
    and p: "d' ''Pitch'' = map (set_null_row cric_Pitch objs) (survivors objs ''Pitch'' (d ''Pitch''))"
    and m: "d' ''Match'' = map (set_null_row Match objs) (survivors objs ''Match'' (d ''Match''))"
    by (simp_all add: d'_def cric_find)
  have 1: "i \<notin> pk ` set (d' ''Stadium'')"
    unfolding s using root by (rule root_removed)
  have 2: "pk r \<notin> pk ` set (d' ''Pitch'')"
    if "r \<in> set (d ''Pitch'')" and "attr r ''stadium'' = Ref i" for r
    using child_removed [of cric_Pitch cric_py r d "[(''Stadium'', i)]" cric_Pitch] that
    by (simp add: cric_members cric_names cric_refers p objs_def)
  have none: "(''Match'', j) \<notin> set objs" for j
    unfolding objs_def by (rule not_collected) (simp_all add: never_cascaded)
  have 3: "list_all2 (\<lambda>m m'. pk m' = pk m \<and>
                           (attr m ''stadium'' = Ref i \<longrightarrow> attr m' ''stadium'' = Null) \<and>
                           (\<forall>k. k \<notin> {''pitch'', ''stadium''} \<longrightarrow> attr m' k = attr m k))
          (d ''Match'') (d' ''Match'')"
    using m none cric_nulled(1) [OF root] cric_nulled_only(1) by (rule set_null_list)
  from ok 1 2 3 show ?thesis by blast
qed

lemma cric_db_rows:
  "cric_db ''Pitch'' = [\<lparr>pk = 1, vals = [(''stadium'', Ref 1), (''name'', Str ''Main'')]\<rparr>]"
  "cric_db ''Match'' = [\<lparr>pk = 1, vals = [(''pitch'', Ref 1), (''stadium'', Ref 1),
                                           (''name'', Str ''First Test'')]\<rparr>]"
  by (simp_all add: cric_db_def)

theorem stadium_delete_witness:
  "\<exists>d'. delete cric_py cric_db [(''Stadium'', 1)] = Inr d' \<and>
        1 \<notin> pk ` set (d' ''Stadium'') \<and> 1 \<notin> pk ` set (d' ''Pitch'') \<and>
        (\<exists>m'. d' ''Match'' = [m'] \<and> pk m' = 1 \<and> attr m' ''stadium'' = Null \<and>
              attr m' ''name'' = Str ''First Test'')"
  using stadium_delete [of cric_db 1]
  by (auto simp: cric_db_rows list_all2_Cons1 attr_def get_field_def)

text \<open>Claim C8. Under the declarations of \<^verbatim>\<open>cric.py\<close>, deleting the Pitch \<open>i\<close> raises no
  error; afterwards no row of the Pitch table has the key \<open>i\<close>, every PitchSnapshot,
  SoilSample, SatelliteImage, CameraImage and PitchMetric whose pitch was \<open>i\<close> is gone, and
  the SensorDevice table has the rows it had, in order and with the same keys: a device
  whose pitch was \<open>i\<close> has the pitch Null, and every other attribute of a device is what it
  was.\<close>

theorem pitch_delete:
  "\<exists>d'. delete cric_py d [(''Pitch'', i)] = Inr d' \<and>
        i \<notin> pk ` set (d' ''Pitch'') \<and>
        (\<forall>T \<in> {''PitchSnapshot'', ''SoilSample'', ''SatelliteImage'', ''CameraImage'',
                ''PitchMetric''}.
           \<forall>r \<in> set (d T). attr r ''pitch'' = Ref i \<longrightarrow> pk r \<notin> pk ` set (d' T)) \<and>
        list_all2 (\<lambda>s s'. pk s' = pk s \<and>
                           (attr s ''pitch'' = Ref i \<longrightarrow> attr s' ''pitch'' = Null) \<and>
                           (\<forall>k. k \<notin> {''pitch''} \<longrightarrow> attr s' k = attr s k))
          (d ''SensorDevice'') (d' ''SensorDevice'')"
proof -
  define objs where "objs = collect (rows_total cric_py d) cric_py d [(''Pitch'', i)]"
  define d' where "d' = (\<lambda>M. case find_model cric_py M of
      None \<Rightarrow> d M | Some m \<Rightarrow> map (set_null_row m objs) (survivors objs M (d M)))"
  have ok: "delete cric_py d [(''Pitch'', i)] = Inr d'"
    unfolding d'_def objs_def using cric_nullable by (rule delete_succeeds)
  have root: "(''Pitch'', i) \<in> set objs"
    unfolding objs_def using collect_roots [of "[(''Pitch'', i)]"] by auto
  have p: "d' ''Pitch'' = map (set_null_row cric_Pitch objs) (survivors objs ''Pitch'' (d ''Pitch''))"
    and s: "d' ''SensorDevice'' =
        map (set_null_row SensorDevice objs) (survivors objs ''SensorDevice'' (d ''SensorDevice''))"
    by (simp_all add: d'_def cric_find)
  have 1: "i \<notin> pk ` set (d' ''Pitch'')"
    unfolding p using root by (rule root_removed)
  have child: "pk r \<notin> pk ` set (d' (mname m))"
    if "m \<in> set cric_py" and "find_model cric_py (mname m) = Some m"
      and "r \<in> set (d (mname m))" and "refers_to m r CASCADE [(''Pitch'', i)]" for m r
  proof -
    from that(2) have "d' (mname m) = map (set_null_row m objs) (survivors objs (mname m) (d (mname m)))"
      by (simp add: d'_def)
    moreover from that(1,3,4)
    have "pk r \<notin> pk ` set (map (set_null_row m objs) (survivors objs (mname m) (d (mname m))))"
      unfolding objs_def by (rule child_removed)
    ultimately show ?thesis by simp
  qed
  have a: "pk r \<notin> pk ` set (d' ''PitchSnapshot'')"
    if "r \<in> set (d ''PitchSnapshot'')" and "attr r ''pitch'' = Ref i" for r
    using child [of PitchSnapshot r] that by (simp add: cric_members cric_names cric_find cric_refers)
  have b: "pk r \<notin> pk ` set (d' ''SoilSample'')"
    if "r \<in> set (d ''SoilSample'')" and "attr r ''pitch'' = Ref i" for r
    using child [of SoilSample r] that by (simp add: cric_members cric_names cric_find cric_refers)
  have c: "pk r \<notin> pk ` set (d' ''SatelliteImage'')"
    if "r \<in> set (d ''SatelliteImage'')" and "attr r ''pitch'' = Ref i" for r
    using child [of SatelliteImage r] that by (simp add: cric_members cric_names cric_find cric_refers)
  have e: "pk r \<notin> pk ` set (d' ''CameraImage'')"
    if "r \<in> set (d ''CameraImage'')" and "attr r ''pitch'' = Ref i" for r
    using child [of CameraImage r] that by (simp add: cric_members cric_names cric_find cric_refers)
  have f: "pk r \<notin> pk ` set (d' ''PitchMetric'')"
    if "r \<in> set (d ''PitchMetric'')" and "attr r ''pitch'' = Ref i" for r
    using child [of PitchMetric r] that by (simp add: cric_members cric_names cric_find cric_refers)
  have 2: "\<forall>T \<in> {''PitchSnapshot'', ''SoilSample'', ''SatelliteImage'', ''CameraImage'',
                ''PitchMetric''}.
           \<forall>r \<in> set (d T). attr r ''pitch'' = Ref i \<longrightarrow> pk r \<notin> pk ` set (d' T)"
    using a b c e f by blast
  have none: "(''SensorDevice'', j) \<notin> set objs" for j
    unfolding objs_def by (rule not_collected) (simp_all add: never_cascaded)
  have 3: "list_all2 (\<lambda>s s'. pk s' = pk s \<and>
                           (attr s ''pitch'' = Ref i \<longrightarrow> attr s' ''pitch'' = Null) \<and>
                           (\<forall>k. k \<notin> {''pitch''} \<longrightarrow> attr s' k = attr s k))
          (d ''SensorDevice'') (d' ''SensorDevice'')"
    using s none cric_nulled(2) [OF root] cric_nulled_only(2) by (rule set_null_list)
  from ok 1 2 3 show ?thesis by blast
qed

lemma sensor_db_rows:
  "sensor_db ''PitchSnapshot'' = [\<lparr>pk = 1, vals = [(''pitch'', Ref 1), (''source'', Str ''drone'')]\<rparr>]"
  "sensor_db ''SoilSample'' = [\<lparr>pk = 1, vals = [(''pitch'', Ref 1), (''ph'', Num 6)]\<rparr>]"
  "sensor_db ''SatelliteImage'' = [\<lparr>pk = 1, vals = [(''pitch'', Ref 1), (''provider'', Str ''esa'')]\<rparr>]"
  "sensor_db ''CameraImage'' = [\<lparr>pk = 1, vals = [(''pitch'', Ref 1), (''provider'', Str ''club'')]\<rparr>]"
  "sensor_db ''PitchMetric'' = [\<lparr>pk = 1, vals = [(''pitch'', Ref 1), (''date'', Date 2024 3 9)]\<rparr>]"
  "sensor_db ''SensorDevice'' = [\<lparr>pk = 1, vals = [(''uid'', Str ''probe-1''),
                                                  (''device_type'', Str ''moisture''),
                                                  (''pitch'', Ref 1)]\<rparr>]"
  "sensor_db ''SensorReading'' = [\<lparr>pk = 1, vals = [(''device'', Ref 1), (''value'', Num 31)]\<rparr>,
                                  \<lparr>pk = 2, vals = [(''device'', Ref 1), (''value'', Num 29)]\<rparr>]"
  by (simp_all add: sensor_db_def cric_db_def)

theorem pitch_delete_witness:
  "\<exists>d'. delete cric_py sensor_db [(''Pitch'', 1)] = Inr d' \<and>
        1 \<notin> pk ` set (d' ''Pitch'') \<and> 1 \<notin> pk ` set (d' ''PitchSnapshot'') \<and>
        1 \<notin> pk ` set (d' ''SoilSample'') \<and> 1 \<notin> pk ` set (d' ''SatelliteImage'') \<and>
        1 \<notin> pk ` set (d' ''CameraImage'') \<and> 1 \<notin> pk ` set (d' ''PitchMetric'') \<and>
        (\<exists>s'. d' ''SensorDevice'' = [s'] \<and> pk s' = 1 \<and> attr s' ''pitch'' = Null \<and>
              attr s' ''uid'' = Str ''probe-1'')"
proof -
  from pitch_delete [of sensor_db 1] obtain d' where
    ok: "delete cric_py sensor_db [(''Pitch'', 1)] = Inr d'" and 1: "1 \<notin> pk ` set (d' ''Pitch'')"
    and 2: "\<forall>T \<in> {''PitchSnapshot'', ''SoilSample'', ''SatelliteImage'', ''CameraImage'',
                ''PitchMetric''}.
           \<forall>r \<in> set (sensor_db T). attr r ''pitch'' = Ref 1 \<longrightarrow> pk r \<notin> pk ` set (d' T)"
    and 3: "list_all2 (\<lambda>s s'. pk s' = pk s \<and>
                           (attr s ''pitch'' = Ref 1 \<longrightarrow> attr s' ''pitch'' = Null) \<and>
                           (\<forall>k. k \<notin> {''pitch''} \<longrightarrow> attr s' k = attr s k))
          (sensor_db ''SensorDevice'') (d' ''SensorDevice'')"
    by blast
  from 2 have "1 \<notin> pk ` set (d' ''PitchSnapshot'') \<and>
        1 \<notin> pk ` set (d' ''SoilSample'') \<and> 1 \<notin> pk ` set (d' ''SatelliteImage'') \<and>
        1 \<notin> pk ` set (d' ''CameraImage'') \<and> 1 \<notin> pk ` set (d' ''PitchMetric'')"
    by (simp add: sensor_db_rows attr_def get_field_def)
  moreover from 3 have "\<exists>s'. d' ''SensorDevice'' = [s'] \<and> pk s' = 1 \<and> attr s' ''pitch'' = Null \<and>
              attr s' ''uid'' = Str ''probe-1''"
    by (auto simp: sensor_db_rows list_all2_Cons1 attr_def get_field_def)
  ultimately show ?thesis using ok 1 by blast
qed

text \<open>Claim C9. Under the declarations of \<^verbatim>\<open>cric.py\<close>, deleting the SensorDevice \<open>i\<close> raises
  no error; afterwards no row of the SensorDevice table has the key \<open>i\<close>, and every
  SensorReading whose device was \<open>i\<close> is gone.\<close>

theorem device_delete:
  "\<exists>d'. delete cric_py d [(''SensorDevice'', i)] = Inr d' \<and>
        i \<notin> pk ` set (d' ''SensorDevice'') \<and>
        (\<forall>r \<in> set (d ''SensorReading''). attr r ''device'' = Ref i \<longrightarrow>
           pk r \<notin> pk ` set (d' ''SensorReading''))"
proof -
  define objs where "objs = collect (rows_total cric_py d) cric_py d [(''SensorDevice'', i)]"
  define d' where "d' = (\<lambda>M. case find_model cric_py M of
      None \<Rightarrow> d M | Some m \<Rightarrow> map (set_null_row m objs) (survivors objs M (d M)))"
  have ok: "delete cric_py d [(''SensorDevice'', i)] = Inr d'"
    unfolding d'_def objs_def using cric_nullable by (rule delete_succeeds)
  have root: "(''SensorDevice'', i) \<in> set objs"
    unfolding objs_def using collect_roots [of "[(''SensorDevice'', i)]"] by auto
  have s: "d' ''SensorDevice'' =
        map (set_null_row SensorDevice objs) (survivors objs ''SensorDevice'' (d ''SensorDevice''))"
    and g: "d' ''SensorReading'' =
        map (set_null_row SensorReading objs) (survivors objs ''SensorReading'' (d ''SensorReading''))"
    by (simp_all add: d'_def cric_find)
  have 1: "i \<notin> pk ` set (d' ''SensorDevice'')"
    unfolding s using root by (rule root_removed)
  have 2: "pk r \<notin> pk ` set (d' ''SensorReading'')"
    if "r \<in> set (d ''SensorReading'')" and "attr r ''device'' = Ref i" for r
    using child_removed [of SensorReading cric_py r d "[(''SensorDevice'', i)]" SensorReading] that
    by (simp add: cric_members cric_names cric_refers g objs_def)
  from ok 1 2 show ?thesis by blast
qed

theorem device_delete_witness:
  "\<exists>d'. delete cric_py sensor_db [(''SensorDevice'', 1)] = Inr d' \<and>
        1 \<notin> pk ` set (d' ''SensorDevice'') \<and>
        1 \<notin> pk ` set (d' ''SensorReading'') \<and> 2 \<notin> pk ` set (d' ''SensorReading'')"
  using device_delete [of sensor_db 1]
  by (auto simp: sensor_db_rows attr_def get_field_def)

end
